theory Spec2Isabelle
  imports Complex_Main
begin

section \<open>Tensors and the tensor backend\<close>

text \<open>
  The TAP machine of paysage (\<^verbatim>\<open>paysage/models/tap_machine.py\<close>) computes with
  one- and two-dimensional tensors of floating point numbers. Here a vector is a
  list of reals and a matrix is the list of its rows, so the arithmetic is exact:
  rounding, overflow and NaN are outside this model. The weight matrix has one row
  per visible unit and one column per hidden unit. All operations below are meant
  for operands of matching shapes, which is what the model class supplies; on lists
  of different lengths \<open>map2\<close> stops at the shorter one.
\<close>

type_synonym vector = "real list"
type_synonym matrix = "real list list"

text \<open>
  Modelled from the spec: the tensor backend \<^verbatim>\<open>paysage.backends\<close> (imported as
  \<^verbatim>\<open>be\<close>) is not among the source files. The spec lists what it supplies:
  elementwise arithmetic, matrix-vector and matrix-matrix products, outer products,
  clipping, exponential and logarithm, uniform random draws and the reductions sum
  and mean, on tensors of fixed shape. The definitions of this section give these
  primitives their usual meaning.
\<close>

definition t_add :: "vector \<Rightarrow> vector \<Rightarrow> vector" where
  "t_add x y = map2 (+) x y"

definition t_sub :: "vector \<Rightarrow> vector \<Rightarrow> vector" where
  "t_sub x y = map2 (-) x y"

definition t_neg :: "vector \<Rightarrow> vector" where
  "t_neg x = map uminus x"

definition s_sub :: "real \<Rightarrow> vector \<Rightarrow> vector" where
  "s_sub c x = map (\<lambda>e. c - e) x"

definition s_mul :: "real \<Rightarrow> vector \<Rightarrow> vector" where
  "s_mul c x = map (\<lambda>e. c * e) x"

definition s_add :: "vector \<Rightarrow> real \<Rightarrow> vector" where
  "s_add x c = map (\<lambda>e. e + c) x"

definition be_log :: "vector \<Rightarrow> vector" where
  "be_log x = map ln x"

text \<open>
  \<^verbatim>\<open>be.divide(a, b)\<close> divides its second argument by its first: it is \<open>b / a\<close>.
  With this reading \<^verbatim>\<open>be.log(be.divide(1.0 - m.v, m.v))\<close> is \<open>ln (v / (1 - v))\<close>, the
  derivative of the entropy term of Gamma, so that the gradients are consistent with
  Gamma as the spec requires, and they vanish at the fixed point that the sibling
  routine \<^verbatim>\<open>minimize_gamma_constraint_sat\<close> iterates, \<open>v = expit (a + W h - ...)\<close>.
\<close>

definition be_divide :: "vector \<Rightarrow> vector \<Rightarrow> vector" where
  "be_divide x y = map2 (\<lambda>a b. b / a) x y"

definition be_multiply :: "vector \<Rightarrow> vector \<Rightarrow> vector" where
  "be_multiply x y = map2 (*) x y"

definition be_square :: "vector \<Rightarrow> vector" where
  "be_square x = map (\<lambda>e. e * e) x"

definition be_tsum :: "vector \<Rightarrow> real" where
  "be_tsum x = sum_list x"

definition be_clip :: "vector \<Rightarrow> real \<Rightarrow> real \<Rightarrow> vector" where
  "be_clip x lo hi = map (\<lambda>e. min (max e lo) hi) x"

text \<open>\<^verbatim>\<open>be.dot\<close> of two vectors, of a matrix and a vector, and of a vector and a matrix.\<close>

definition be_dot :: "vector \<Rightarrow> vector \<Rightarrow> real" where
  "be_dot x y = sum_list (map2 (*) x y)"

definition be_dot_mv :: "matrix \<Rightarrow> vector \<Rightarrow> vector" where
  "be_dot_mv M x = map (\<lambda>row. be_dot row x) M"

definition be_dot_vm :: "vector \<Rightarrow> matrix \<Rightarrow> vector" where
  "be_dot_vm x M = map (\<lambda>col. be_dot x col) (transpose M)"

text \<open>The same elementwise operations on matrices.\<close>

definition m_square :: "matrix \<Rightarrow> matrix" where
  "m_square M = map be_square M"

definition m_multiply :: "matrix \<Rightarrow> matrix \<Rightarrow> matrix" where
  "m_multiply M N = map2 be_multiply M N"

definition m_add :: "matrix \<Rightarrow> matrix \<Rightarrow> matrix" where
  "m_add M N = map2 t_add M N"

definition m_sub :: "matrix \<Rightarrow> matrix \<Rightarrow> matrix" where
  "m_sub M N = map2 t_sub M N"

definition m_neg :: "matrix \<Rightarrow> matrix" where
  "m_neg M = map t_neg M"

definition m_smul :: "real \<Rightarrow> matrix \<Rightarrow> matrix" where
  "m_smul c M = map (s_mul c) M"

definition m_sdiv :: "matrix \<Rightarrow> real \<Rightarrow> matrix" where
  "m_sdiv M c = map (map (\<lambda>e. e / c)) M"

definition m_tsum :: "matrix \<Rightarrow> real" where
  "m_tsum M = sum_list (map sum_list M)"

definition be_outer :: "vector \<Rightarrow> vector \<Rightarrow> matrix" where
  "be_outer x y = map (\<lambda>e. s_mul e y) x"

text \<open>
  \<^verbatim>\<open>be.multiply\<close> of a matrix with a vector unsqueezed to a column (axis 1: the
  \<open>i\<close>-th row is scaled by the \<open>i\<close>-th entry) and to a row (axis 0: every row is
  multiplied entrywise by the vector), as broadcasting does it.
\<close>

definition multiply_unsqueeze1 :: "vector \<Rightarrow> matrix \<Rightarrow> matrix" where
  "multiply_unsqueeze1 x M = map2 s_mul x M"

definition multiply_unsqueeze0 :: "vector \<Rightarrow> matrix \<Rightarrow> matrix" where
  "multiply_unsqueeze0 x M = map (be_multiply x) M"

definition expit :: "real \<Rightarrow> real" where
  "expit x = 1 / (1 + exp (- x))"

definition be_dot_mm :: "matrix \<Rightarrow> matrix \<Rightarrow> matrix" where
  "be_dot_mm M N = map (\<lambda>row. be_dot_vm row N) M"

definition be_mean_axis0 :: "matrix \<Rightarrow> vector" where
  "be_mean_axis0 M = map (\<lambda>col. sum_list col / real (length col)) (transpose M)"

text \<open>
  The process-wide random generator is an explicit state: the stream of the uniform
  draws still to come. \<^verbatim>\<open>be.rand((n,))\<close> takes the next \<open>n\<close> of them.
\<close>

type_synonym rng = "nat \<Rightarrow> real"

definition be_rand :: "nat \<Rightarrow> rng \<Rightarrow> vector \<times> rng" where
  "be_rand n g = (map g [0..<n], (\<lambda>i. g (i + n)))"

section \<open>Magnetizations and the model\<close>

record magnetization =
  v :: vector
  h :: vector

datatype error = ValueError | AttributeError | UnboundLocalError

text \<open>
  The attributes of a \<^verbatim>\<open>TAP_rbm\<close>. The base class \<^verbatim>\<open>model.Model\<close> is not among
  the source files; of what it holds, the TAP code reads the weight matrix
  \<^verbatim>\<open>weights[0].params.matrix\<close> and the two bias vectors \<^verbatim>\<open>layers[0].params.loc\<close>
  and \<^verbatim>\<open>layers[1].params.loc\<close>.
\<close>

record TAP_rbm =
  weights0_matrix :: matrix
  layers0_loc :: vector
  layers1_loc :: vector
  tolerance_EMF :: real
  max_iters_EMF :: int
  init_lr_EMF :: real
  persistent_samples :: "magnetization option list"
  tap_seed :: "magnetization option"
  terms :: int

text \<open>
  \<^verbatim>\<open>TAP_rbm.__init__\<close>. Modelled from the spec: the base constructor
  \<^verbatim>\<open>super().__init__(layer_list)\<close> is not among the source files; the weight
  matrix and the two bias vectors it sets up (the model parameters of the spec)
  stand for the layer list.
\<close>

definition TAP_rbm_init ::
  "matrix \<times> vector \<times> vector \<Rightarrow> int \<Rightarrow> real \<Rightarrow> real \<Rightarrow> int \<Rightarrow> int \<Rightarrow> error + TAP_rbm" where
  "TAP_rbm_init layer_list terms' init_lr_EMF' tolerance_EMF' max_iters_EMF' num_persistent_samples =
     (case layer_list of (w, a, b) \<Rightarrow>
        if terms' \<noteq> 1 \<and> terms' \<noteq> 2 \<and> terms' \<noteq> 3 then Inl ValueError
        else Inr \<lparr> weights0_matrix = w, layers0_loc = a, layers1_loc = b,
                   tolerance_EMF = tolerance_EMF', max_iters_EMF = max_iters_EMF',
                   init_lr_EMF = init_lr_EMF',
                   persistent_samples = replicate (nat num_persistent_samples) None,
                   tap_seed = None, terms = terms' \<rparr>)"

section \<open>The Gamma functionals\<close>

definition gamma_MF :: "TAP_rbm \<Rightarrow> magnetization \<Rightarrow> real" where
  "gamma_MF self m =
     (let w = weights0_matrix self; a = layers0_loc self; b = layers1_loc self
      in be_tsum (t_add (be_multiply (v m) (be_log (v m)))
                        (be_multiply (s_sub 1 (v m)) (be_log (s_sub 1 (v m)))))
         + be_tsum (t_add (be_multiply (h m) (be_log (h m)))
                          (be_multiply (s_sub 1 (h m)) (be_log (s_sub 1 (h m)))))
         - be_dot a (v m) - be_dot b (h m) - be_dot (v m) (t_add a (be_dot_mv w (h m))))"

definition gamma_TAP2 :: "TAP_rbm \<Rightarrow> magnetization \<Rightarrow> real" where
  "gamma_TAP2 self m =
     (let w = weights0_matrix self; a = layers0_loc self; b = layers1_loc self;
          m_v_quad = t_sub (v m) (be_square (v m));
          m_h_quad = t_sub (h m) (be_square (h m));
          ww = m_square w
      in be_tsum (t_add (be_multiply (v m) (be_log (v m)))
                        (be_multiply (s_sub 1 (v m)) (be_log (s_sub 1 (v m)))))
         + be_tsum (t_add (be_multiply (h m) (be_log (h m)))
                          (be_multiply (s_sub 1 (h m)) (be_log (s_sub 1 (h m)))))
         - be_dot b (h m) - be_dot (v m) (t_add a (be_dot_mv w (h m)))
         - 0.5 * be_dot m_v_quad (be_dot_mv ww m_h_quad))"

definition gamma_TAP3 :: "TAP_rbm \<Rightarrow> magnetization \<Rightarrow> real" where
  "gamma_TAP3 self m =
     (let w = weights0_matrix self; a = layers0_loc self; b = layers1_loc self;
          m_v_quad = t_sub (v m) (be_square (v m));
          m_h_quad = t_sub (h m) (be_square (h m));
          ww = m_square w;
          www = m_multiply ww w;
          alias1 = be_multiply (s_sub 0.5 (v m)) m_v_quad;
          alias2 = be_multiply (s_sub 0.5 (h m)) m_h_quad
      in be_tsum (t_add (be_multiply (v m) (be_log (v m)))
                        (be_multiply (s_sub 1 (v m)) (be_log (s_sub 1 (v m)))))
         + be_tsum (t_add (be_multiply (h m) (be_log (h m)))
                          (be_multiply (s_sub 1 (h m)) (be_log (s_sub 1 (h m)))))
         - be_dot b (h m) - be_dot (v m) (t_add a (be_dot_mv w (h m)))
         - 0.5 * be_dot m_v_quad (be_dot_mv ww m_h_quad)
         - (4 / 3) * m_tsum (multiply_unsqueeze0 alias2 (multiply_unsqueeze1 alias1 www)))"

text \<open>The gradients that \<^verbatim>\<open>gibbs_free_energy\<close> defines for the descent.\<close>

definition grad_v_gamma_MF :: "magnetization \<Rightarrow> matrix \<Rightarrow> vector \<Rightarrow> vector" where
  "grad_v_gamma_MF m w a =
     t_sub (t_sub (be_log (be_divide (s_sub 1 (v m)) (v m))) a) (be_dot_mv w (h m))"

definition grad_h_gamma_MF :: "magnetization \<Rightarrow> matrix \<Rightarrow> vector \<Rightarrow> vector" where
  "grad_h_gamma_MF m w b =
     t_sub (t_sub (be_log (be_divide (s_sub 1 (h m)) (h m))) b) (be_dot_vm (v m) w)"

definition grad_v_gamma_TAP2 :: "magnetization \<Rightarrow> matrix \<Rightarrow> vector \<Rightarrow> vector" where
  "grad_v_gamma_TAP2 m w a =
     (let m_h_quad = t_sub (h m) (be_square (h m));
          ww = m_square w
      in t_sub (t_sub (t_sub (be_log (be_divide (s_sub 1 (v m)) (v m))) a) (be_dot_mv w (h m)))
               (be_multiply (s_sub 0.5 (v m)) (be_dot_mv ww m_h_quad)))"

definition grad_h_gamma_TAP2 :: "magnetization \<Rightarrow> matrix \<Rightarrow> vector \<Rightarrow> vector" where
  "grad_h_gamma_TAP2 m w b =
     (let m_v_quad = t_sub (v m) (be_square (v m));
          ww = m_square w
      in t_sub (t_sub (t_sub (be_log (be_divide (s_sub 1 (h m)) (h m))) b) (be_dot_vm (v m) w))
               (be_multiply (be_dot_vm m_v_quad ww) (s_sub 0.5 (h m))))"

definition grad_v_gamma_TAP3 :: "magnetization \<Rightarrow> matrix \<Rightarrow> vector \<Rightarrow> vector" where
  "grad_v_gamma_TAP3 m w a =
     (let m_h_quad = t_sub (h m) (be_square (h m));
          ww = m_square w;
          www = m_multiply ww w
      in t_sub (t_sub (t_sub (t_sub (be_log (be_divide (s_sub 1 (v m)) (v m))) a)
                             (be_dot_mv w (h m)))
                      (be_multiply (s_sub 0.5 (v m)) (be_dot_mv ww m_h_quad)))
               (s_mul (4 / 3)
                  (be_multiply (t_add (s_sub 0.5 (s_mul 3 (v m))) (s_mul 3 (be_square (v m))))
                               (be_dot_mv www (be_multiply (s_sub 0.5 (h m)) m_h_quad)))))"

definition grad_h_gamma_TAP3 :: "magnetization \<Rightarrow> matrix \<Rightarrow> vector \<Rightarrow> vector" where
  "grad_h_gamma_TAP3 m w b =
     (let m_v_quad = t_sub (v m) (be_square (v m));
          ww = m_square w;
          www = m_multiply ww w
      in t_sub (t_sub (t_sub (t_sub (be_log (be_divide (s_sub 1 (h m)) (h m))) b)
                             (be_dot_vm (v m) w))
                      (be_multiply (be_dot_vm m_v_quad ww) (s_sub 0.5 (h m))))
               (s_mul (4 / 3)
                  (be_multiply (be_dot_vm (be_multiply (s_sub 0.5 (v m)) m_v_quad) www)
                               (t_add (s_sub 0.5 (s_mul 3 (h m))) (s_mul 3 (be_square (h m)))))))"

section \<open>The free-energy minimizer\<close>

text \<open>
  The provisional point of one descent iteration: the gradient step from \<open>m\<close> with
  learning rate \<open>lr\<close>, both vectors clipped in place to \<open>[eps, 1 - eps]\<close> with
  \<open>eps = 1e-6\<close>.
\<close>

definition m_provisional ::
  "(magnetization \<Rightarrow> matrix \<Rightarrow> vector \<Rightarrow> vector) \<Rightarrow> (magnetization \<Rightarrow> matrix \<Rightarrow> vector \<Rightarrow> vector) \<Rightarrow>
   matrix \<Rightarrow> vector \<Rightarrow> vector \<Rightarrow> real \<Rightarrow> magnetization \<Rightarrow> magnetization" where
  "m_provisional grad_v_gamma grad_h_gamma w a b lr m =
     (let eps = 1 / 1000000
      in \<lparr> v = be_clip (t_sub (v m) (s_mul lr (grad_v_gamma m w a))) eps (1 - eps),
           h = be_clip (t_sub (h m) (s_mul lr (grad_h_gamma m w b))) eps (1 - eps) \<rparr>)"

text \<open>
  The \<^verbatim>\<open>while\<close> loop of \<^verbatim>\<open>minimize_gamma_GD\<close>, from the loop variables
  \<open>its\<close>, \<open>lr\<close>, \<open>m\<close> and \<open>gam\<close>, for the functional \<open>gamma\<close> and the gradients
  that the expansion order selected.
\<close>

function minimize_gamma_GD_loop ::
  "(magnetization \<Rightarrow> real) \<Rightarrow> (magnetization \<Rightarrow> matrix \<Rightarrow> vector \<Rightarrow> vector) \<Rightarrow>
   (magnetization \<Rightarrow> matrix \<Rightarrow> vector \<Rightarrow> vector) \<Rightarrow> matrix \<Rightarrow> vector \<Rightarrow> vector \<Rightarrow>
   real \<Rightarrow> int \<Rightarrow> int \<Rightarrow> real \<Rightarrow> magnetization \<Rightarrow> real \<Rightarrow> magnetization \<times> real" where
  "minimize_gamma_GD_loop gamma grad_v_gamma grad_h_gamma w a b tol max_iters its lr m gam =
     (if its < max_iters then
        (let mp = m_provisional grad_v_gamma grad_h_gamma w a b lr m;
             gam_provisional = gamma mp
         in if gam - gam_provisional < 0 then
              (if lr * 0.5 < 1 / 10000000000 then (m, gam)
               else minimize_gamma_GD_loop gamma grad_v_gamma grad_h_gamma w a b tol max_iters
                      (its + 1) (lr * 0.5) m gam)
            else if gam - gam_provisional < tol then (m, gam)
            else minimize_gamma_GD_loop gamma grad_v_gamma grad_h_gamma w a b tol max_iters
                   (its + 1) lr mp gam_provisional)
      else (m, gam))"
  by pat_completeness auto
termination
  by (relation "measure (\<lambda>(gamma, gv, gh, w, a, b, tol, max_iters, its, lr, m, gam).
                           nat (max_iters - its))") auto

declare minimize_gamma_GD_loop.simps [simp del]

text \<open>
  The same loop, recording the loop variables \<open>(lr, m, gam)\<close> before the first
  iteration and after every iteration that is run.
\<close>

function minimize_gamma_GD_trace ::
  "(magnetization \<Rightarrow> real) \<Rightarrow> (magnetization \<Rightarrow> matrix \<Rightarrow> vector \<Rightarrow> vector) \<Rightarrow>
   (magnetization \<Rightarrow> matrix \<Rightarrow> vector \<Rightarrow> vector) \<Rightarrow> matrix \<Rightarrow> vector \<Rightarrow> vector \<Rightarrow>
   real \<Rightarrow> int \<Rightarrow> int \<Rightarrow> real \<Rightarrow> magnetization \<Rightarrow> real \<Rightarrow> (real \<times> magnetization \<times> real) list" where
  "minimize_gamma_GD_trace gamma grad_v_gamma grad_h_gamma w a b tol max_iters its lr m gam =
     (lr, m, gam) #
     (if its < max_iters then
        (let mp = m_provisional grad_v_gamma grad_h_gamma w a b lr m;
             gam_provisional = gamma mp
         in if gam - gam_provisional < 0 then
              (if lr * 0.5 < 1 / 10000000000 then [(lr * 0.5, m, gam)]
               else minimize_gamma_GD_trace gamma grad_v_gamma grad_h_gamma w a b tol max_iters
                      (its + 1) (lr * 0.5) m gam)
            else if gam - gam_provisional < tol then [(lr, m, gam)]
            else minimize_gamma_GD_trace gamma grad_v_gamma grad_h_gamma w a b tol max_iters
                   (its + 1) lr mp gam_provisional)
      else [])"
  by pat_completeness auto
termination
  by (relation "measure (\<lambda>(gamma, gv, gh, w, a, b, tol, max_iters, its, lr, m, gam).
                           nat (max_iters - its))") auto

declare minimize_gamma_GD_trace.simps [simp del]

text \<open>
  \<^verbatim>\<open>minimize_gamma_GD\<close>: the expansion order selects the functional and the two
  gradients, then the loop runs from \<open>its = 0\<close>, \<open>lr = init_lr\<close> and
  \<open>gam = gamma(m)\<close>. For an order that is none of 1, 2, 3 no branch binds
  \<open>gamma\<close>, and its first use fails.
\<close>

definition minimize_gamma_GD ::
  "TAP_rbm \<Rightarrow> matrix \<Rightarrow> vector \<Rightarrow> vector \<Rightarrow> magnetization \<Rightarrow> real \<Rightarrow> real \<Rightarrow> int \<Rightarrow> int \<Rightarrow>
   error + magnetization \<times> real" where
  "minimize_gamma_GD self w a b m init_lr tol max_iters terms' =
     (if terms' = 1 then
        Inr (minimize_gamma_GD_loop (gamma_MF self) grad_v_gamma_MF grad_h_gamma_MF
               w a b tol max_iters 0 init_lr m (gamma_MF self m))
      else if terms' = 2 then
        Inr (minimize_gamma_GD_loop (gamma_TAP2 self) grad_v_gamma_TAP2 grad_h_gamma_TAP2
               w a b tol max_iters 0 init_lr m (gamma_TAP2 self m))
      else if terms' = 3 then
        Inr (minimize_gamma_GD_loop (gamma_MF self) grad_v_gamma_TAP3 grad_h_gamma_TAP3
               w a b tol max_iters 0 init_lr m (gamma_MF self m))
      else Inl UnboundLocalError)"

text \<open>The random starting point: uniform draws scaled into \<open>(0.005, 0.995)\<close>.\<close>

definition random_seed :: "vector \<Rightarrow> vector \<Rightarrow> rng \<Rightarrow> magnetization \<times> rng" where
  "random_seed a b g =
     (let num_visible_units = length a;
          num_hidden_units = length b;
          (rv, g1) = be_rand num_visible_units g;
          (rh, g2) = be_rand num_hidden_units g1
      in (\<lparr> v = s_add (s_mul 0.99 rv) 0.005, h = s_add (s_mul 0.99 rh) 0.005 \<rparr>, g2))"

definition gibbs_free_energy ::
  "TAP_rbm \<Rightarrow> rng \<Rightarrow> magnetization option \<Rightarrow> real \<Rightarrow> real \<Rightarrow> int \<Rightarrow> int \<Rightarrow>
   error + (magnetization \<times> real) \<times> rng" where
  "gibbs_free_energy self g seed init_lr tol max_iters terms' =
     (if terms' \<noteq> 1 \<and> terms' \<noteq> 2 \<and> terms' \<noteq> 3 then Inl ValueError
      else
        (let w = weights0_matrix self; a = layers0_loc self; b = layers1_loc self;
             (seed', g') = (case seed of None \<Rightarrow> random_seed a b g | Some s \<Rightarrow> (s, g))
         in case minimize_gamma_GD self w a b seed' init_lr tol max_iters terms' of
              Inl e \<Rightarrow> Inl e
            | Inr r \<Rightarrow> Inr (r, g')))"

section \<open>The heat capacity\<close>

definition grad_beta_beta_TAP3 :: "TAP_rbm \<Rightarrow> magnetization \<Rightarrow> real" where
  "grad_beta_beta_TAP3 self m =
     (let w = weights0_matrix self; a = layers0_loc self; b = layers1_loc self;
          m_v_quad = t_sub (v m) (be_square (v m));
          m_h_quad = t_sub (h m) (be_square (h m));
          www = m_multiply (m_square w) w;
          alias1 = be_multiply (s_sub 0.5 (v m)) m_v_quad;
          alias2 = be_multiply (s_sub 0.5 (h m)) m_h_quad
      in 2 * (be_tsum (t_add (be_multiply (v m) (be_log (v m)))
                             (be_multiply (s_sub 1 (v m)) (be_log (s_sub 1 (v m)))))
              + be_tsum (t_add (be_multiply (h m) (be_log (h m)))
                               (be_multiply (s_sub 1 (h m)) (be_log (s_sub 1 (h m)))))
              - (4 / 3) * m_tsum (multiply_unsqueeze0 alias2 (multiply_unsqueeze1 alias1 www))))"

text \<open>The two gradients local to \<^verbatim>\<open>heat_capacity\<close>.\<close>

definition grad_v :: "magnetization \<Rightarrow> matrix \<Rightarrow> vector \<Rightarrow> vector" where
  "grad_v m w a =
     (let m_h_quad = t_sub (h m) (be_square (h m));
          ww = m_square w;
          www = m_multiply ww w
      in s_mul 2
           (t_sub (be_log (be_divide (s_sub 1 (v m)) (v m)))
                  (s_mul (4 / 3)
                     (be_multiply (t_add (s_sub 0.5 (s_mul 3 (v m))) (s_mul 3 (be_square (v m))))
                                  (be_dot_mv www (be_multiply (s_sub 0.5 (h m)) m_h_quad))))))"

definition grad_h :: "magnetization \<Rightarrow> matrix \<Rightarrow> vector \<Rightarrow> vector" where
  "grad_h m w b =
     (let m_v_quad = t_sub (v m) (be_square (v m));
          ww = m_square w;
          www = m_multiply ww w
      in s_mul 2
           (t_sub (be_log (be_divide (s_sub 1 (h m)) (h m)))
                  (s_mul (4 / 3)
                     (be_multiply (be_dot_vm (be_multiply (s_sub 0.5 (v m)) m_v_quad) www)
                                  (t_add (s_sub 0.5 (s_mul 3 (h m))) (s_mul 3 (be_square (h m))))))))"

text \<open>
  The \<^verbatim>\<open>while\<close> loop of \<^verbatim>\<open>minimize_GD\<close> inside \<^verbatim>\<open>heat_capacity\<close>, written out
  from its own source text; it returns \<open>gam\<close> only.
\<close>

function minimize_GD_loop ::
  "TAP_rbm \<Rightarrow> matrix \<Rightarrow> vector \<Rightarrow> vector \<Rightarrow> real \<Rightarrow> int \<Rightarrow> int \<Rightarrow> real \<Rightarrow> magnetization \<Rightarrow> real \<Rightarrow> real" where
  "minimize_GD_loop self w a b tol max_iters its lr m gam =
     (if its < max_iters then
        (let eps = 1 / 1000000;
             mp = \<lparr> v = be_clip (t_sub (v m) (s_mul lr (grad_v m w a))) eps (1 - eps),
                    h = be_clip (t_sub (h m) (s_mul lr (grad_h m w b))) eps (1 - eps) \<rparr>;
             gam_provisional = grad_beta_beta_TAP3 self mp
         in if gam - gam_provisional < 0 then
              (if lr * 0.5 < 1 / 10000000000 then gam
               else minimize_GD_loop self w a b tol max_iters (its + 1) (lr * 0.5) m gam)
            else if gam - gam_provisional < tol then gam
            else minimize_GD_loop self w a b tol max_iters (its + 1) lr mp gam_provisional)
      else gam)"
  by pat_completeness auto
termination
  by (relation "measure (\<lambda>(self, w, a, b, tol, max_iters, its, lr, m, gam).
                           nat (max_iters - its))") auto

declare minimize_GD_loop.simps [simp del]

definition minimize_GD ::
  "TAP_rbm \<Rightarrow> matrix \<Rightarrow> vector \<Rightarrow> vector \<Rightarrow> magnetization \<Rightarrow> real \<Rightarrow> real \<Rightarrow> int \<Rightarrow> real" where
  "minimize_GD self w a b m init_lr tol max_iters =
     minimize_GD_loop self w a b tol max_iters 0 init_lr m (grad_beta_beta_TAP3 self m)"

definition heat_capacity ::
  "TAP_rbm \<Rightarrow> rng \<Rightarrow> magnetization option \<Rightarrow> real \<Rightarrow> real \<Rightarrow> int \<Rightarrow> real \<times> rng" where
  "heat_capacity self g seed init_lr tol max_iters =
     (let w = weights0_matrix self; a = layers0_loc self; b = layers1_loc self;
          (seed', g') = (case seed of None \<Rightarrow> random_seed a b g | Some s \<Rightarrow> (s, g))
      in (- minimize_GD self w a b seed' init_lr tol max_iters, g'))"

section \<open>The gradient assembler\<close>

definition grad_a_gamma :: "magnetization \<Rightarrow> matrix \<Rightarrow> vector \<Rightarrow> vector \<Rightarrow> vector" where
  "grad_a_gamma m w a b = t_neg (v m)"

definition grad_b_gamma :: "magnetization \<Rightarrow> matrix \<Rightarrow> vector \<Rightarrow> vector \<Rightarrow> vector" where
  "grad_b_gamma m w a b = t_neg (h m)"

definition grad_w_gamma_MF :: "magnetization \<Rightarrow> matrix \<Rightarrow> vector \<Rightarrow> vector \<Rightarrow> matrix" where
  "grad_w_gamma_MF m w a b = m_neg (be_outer (v m) (h m))"

definition grad_w_gamma_TAP2 :: "magnetization \<Rightarrow> matrix \<Rightarrow> vector \<Rightarrow> vector \<Rightarrow> matrix" where
  "grad_w_gamma_TAP2 m w a b =
     (let m_v_quad = t_sub (v m) (be_square (v m));
          m_h_quad = t_sub (h m) (be_square (h m))
      in m_sub (m_neg (be_outer (v m) (h m))) (m_multiply w (be_outer m_v_quad m_h_quad)))"

definition grad_w_gamma_TAP3 :: "magnetization \<Rightarrow> matrix \<Rightarrow> vector \<Rightarrow> vector \<Rightarrow> matrix" where
  "grad_w_gamma_TAP3 m w a b =
     (let m_v_quad = t_sub (v m) (be_square (v m));
          m_h_quad = t_sub (h m) (be_square (h m));
          ww = m_square w
      in m_sub (m_sub (m_neg (be_outer (v m) (h m))) (m_multiply w (be_outer m_v_quad m_h_quad)))
               (m_smul 4 (m_multiply ww
                  (be_outer (be_multiply (s_sub 0.5 (v m)) m_v_quad)
                            (be_multiply (s_sub 0.5 (h m)) m_h_quad)))))"

text \<open>
  \<^verbatim>\<open>gu.Gradient\<close>: one entry per layer and one per weight, each absent (\<open>None\<close>)
  until it is filled.
\<close>

record Gradient =
  layers :: "vector option list"
  weights :: "matrix option list"

text \<open>
  The \<^verbatim>\<open>for\<close> loop of \<^verbatim>\<open>gradient\<close> over the slots \<open>s\<close> of the persistent pool. The
  loop variables are the pool, \<open>EMF\<close>, \<open>best_EMF\<close>, the selected magnetization \<open>m\<close>
  (\<open>None\<close> until a slot is selected) and the random generator.
\<close>

fun persistent_loop ::
  "TAP_rbm \<Rightarrow> nat list \<Rightarrow> magnetization option list \<times> real \<times> real \<times> magnetization option \<times> rng \<Rightarrow>
   error + magnetization option list \<times> real \<times> real \<times> magnetization option \<times> rng" where
  "persistent_loop self [] st = Inr st"
| "persistent_loop self (s # ss) (samples, EMF, best_EMF, m, g) =
     (case gibbs_free_energy self g (samples ! s) (init_lr_EMF self) (tolerance_EMF self)
             (max_iters_EMF self) (terms self) of
        Inl e \<Rightarrow> Inl e
      | Inr ((m', EMF'), g') \<Rightarrow>
          persistent_loop self ss
            (if EMF' < best_EMF then (samples[s := Some m'], EMF', EMF', Some m', g')
             else (samples[s := Some m'], EMF', best_EMF, m, g')))"

text \<open>
  The first half of \<^verbatim>\<open>gradient\<close>: the TAP approximation to the Gibbs free energy.
  It yields the pool as the loop left it, \<open>EMF\<close>, the magnetization \<open>m\<close> and the
  random generator.
\<close>

definition tap_minimum ::
  "TAP_rbm \<Rightarrow> rng \<Rightarrow> error + magnetization option list \<times> real \<times> magnetization option \<times> rng" where
  "tap_minimum self g =
     (if length (persistent_samples self) = 0 then
        (case gibbs_free_energy self g None (init_lr_EMF self) (tolerance_EMF self)
                (max_iters_EMF self) (terms self) of
           Inl e \<Rightarrow> Inl e
         | Inr ((m, EMF), g') \<Rightarrow> Inr (persistent_samples self, EMF, Some m, g'))
      else
        (case persistent_loop self [0..<length (persistent_samples self)]
                (persistent_samples self, 1000000, 10000000, None, g) of
           Inl e \<Rightarrow> Inl e
         | Inr (samples, EMF, best_EMF, m, g') \<Rightarrow> Inr (samples, EMF, m, g')))"

text \<open>
  The second half of \<^verbatim>\<open>gradient\<close>: the gradients of Gamma at the magnetization
  \<open>m\<close>, the averages over the minibatch \<^verbatim>\<open>data_state.units[0]\<close>, and their sum.
\<close>

definition assemble_gradient ::
  "(magnetization \<Rightarrow> matrix \<Rightarrow> vector \<Rightarrow> vector \<Rightarrow> matrix) \<Rightarrow> TAP_rbm \<Rightarrow> magnetization \<Rightarrow> matrix \<Rightarrow> Gradient" where
  "assemble_gradient grad_w_gamma self m units0 =
     (let w = weights0_matrix self; a = layers0_loc self; b = layers1_loc self;
          dw_EMF = grad_w_gamma m w a b;
          da_EMF = grad_a_gamma m w a b;
          db_EMF = grad_b_gamma m w a b;
          intermediate = map (\<lambda>row. map expit (t_add b row)) (be_dot_mm units0 w);
          da = be_mean_axis0 units0;
          db = be_mean_axis0 intermediate;
          batch_size = length units0;
          dw = m_sdiv (be_dot_mm (transpose units0) intermediate) (real batch_size)
      in \<lparr> layers = [Some (t_add da da_EMF), Some (t_add db db_EMF)],
           weights = [Some (m_add dw dw_EMF)] \<rparr>)"

text \<open>
  \<^verbatim>\<open>gradient\<close>. It returns the gradient together with the model, whose pool the
  call has overwritten, and the random generator. A magnetization that is still
  \<open>None\<close> fails at its first attribute access.
\<close>

definition gradient :: "TAP_rbm \<Rightarrow> rng \<Rightarrow> matrix \<Rightarrow> error + Gradient \<times> TAP_rbm \<times> rng" where
  "gradient self g units0 =
     (let grad_w_gamma =
            (if terms self = 1 then Some grad_w_gamma_MF
             else if terms self = 2 then Some grad_w_gamma_TAP2
             else if terms self = 3 then Some grad_w_gamma_TAP3
             else None)
      in case tap_minimum self g of
           Inl e \<Rightarrow> Inl e
         | Inr (samples, EMF, m, g') \<Rightarrow>
             (case grad_w_gamma of
                None \<Rightarrow> Inl UnboundLocalError
              | Some gw \<Rightarrow>
                  (case m of
                     None \<Rightarrow> Inl AttributeError
                   | Some m' \<Rightarrow>
                       Inr (assemble_gradient gw self m' units0,
                            self\<lparr>persistent_samples := samples\<rparr>, g'))))"

section \<open>Reference definitions for the statements\<close>

text \<open>
  The results \<open>(magnetization, EMF)\<close> of running the minimizer on the slots of a
  pool one after the other, each seeded with the slot's contents.
\<close>

fun pool_results :: "TAP_rbm \<Rightarrow> rng \<Rightarrow> magnetization option list \<Rightarrow> (magnetization \<times> real) list" where
  "pool_results self g [] = []"
| "pool_results self g (slot # slots) =
     (case gibbs_free_energy self g slot (init_lr_EMF self) (tolerance_EMF self)
             (max_iters_EMF self) (terms self) of
        Inl e \<Rightarrow> []
      | Inr (r, g') \<Rightarrow> r # pool_results self g' slots)"

text \<open>Every entry of a matrix is zero.\<close>

definition zero_matrix :: "matrix \<Rightarrow> bool" where
  "zero_matrix M = list_all (list_all (\<lambda>e. e = 0)) M"

text \<open>All components of a magnetization lie in \<open>[lo, hi]\<close>.\<close>

definition all_within :: "real \<Rightarrow> real \<Rightarrow> magnetization \<Rightarrow> bool" where
  "all_within lo hi m = (list_all (\<lambda>e. lo \<le> e \<and> e \<le> hi) (v m) \<and> list_all (\<lambda>e. lo \<le> e \<and> e \<le> hi) (h m))"

text \<open>All components of a magnetization lie strictly between 0 and 1.\<close>

definition inside_unit :: "magnetization \<Rightarrow> bool" where
  "inside_unit m = (list_all (\<lambda>e. 0 < e \<and> e < 1) (v m) \<and> list_all (\<lambda>e. 0 < e \<and> e < 1) (h m))"

text \<open>
  The arguments of the logarithms that the Gamma functionals and their gradients
  take at a magnetization: its components \<open>m\<close>, their complements \<open>1 - m\<close>, which
  are also the divisors of the quotients, and the quotients \<^verbatim>\<open>be.divide(1 - m, m)\<close>.
\<close>

definition log_arguments :: "magnetization \<Rightarrow> real list" where
  "log_arguments m =
     v m @ s_sub 1 (v m) @ be_divide (s_sub 1 (v m)) (v m) @
     h m @ s_sub 1 (h m) @ be_divide (s_sub 1 (h m)) (h m)"

text \<open>
  One iteration of the descent loop as a relation between the loop variables
  \<open>(lr, m, gam)\<close> before it and after it: an ascent halves the learning rate, a
  decrease below \<open>tol\<close> changes nothing, and any other step adopts the provisional
  point and its value.
\<close>

definition descent_step ::
  "(magnetization \<Rightarrow> real) \<Rightarrow> (magnetization \<Rightarrow> matrix \<Rightarrow> vector \<Rightarrow> vector) \<Rightarrow>
   (magnetization \<Rightarrow> matrix \<Rightarrow> vector \<Rightarrow> vector) \<Rightarrow> matrix \<Rightarrow> vector \<Rightarrow> vector \<Rightarrow> real \<Rightarrow>
   real \<times> magnetization \<times> real \<Rightarrow> real \<times> magnetization \<times> real \<Rightarrow> bool" where
  "descent_step gamma gv gh w a b tol = (\<lambda>(lr, m, gam) (lr', m', gam').
      if gam - gamma (m_provisional gv gh w a b lr m) < 0
      then lr' = lr * 0.5 \<and> m' = m \<and> gam' = gam
      else if gam - gamma (m_provisional gv gh w a b lr m) < tol
      then lr' = lr \<and> m' = m \<and> gam' = gam
      else lr' = lr \<and> m' = m_provisional gv gh w a b lr m \<and> gam' = gamma m')"

section \<open>Concrete inputs\<close>

text \<open>A model with one visible and one hidden unit, zero weight, and visible bias 3.\<close>

definition rbm_bias3 :: TAP_rbm where
  "rbm_bias3 = \<lparr> weights0_matrix = [[0]], layers0_loc = [3], layers1_loc = [0],
          tolerance_EMF = 3, max_iters_EMF = 50, init_lr_EMF = 1 / 10,
          persistent_samples = [], tap_seed = None, terms = 1 \<rparr>"

definition seed_half :: magnetization where
  "seed_half = \<lparr> v = [1 / 2], h = [1 / 2] \<rparr>"

definition rng_half :: rng where
  "rng_half = (\<lambda>i. 1 / 2)"

text \<open>The same model without bias, and a seed whose visible component is \<open>1 - 1e-7\<close>.\<close>

definition rbm_zero :: TAP_rbm where
  "rbm_zero = \<lparr> weights0_matrix = [[0]], layers0_loc = [0], layers1_loc = [0],
          tolerance_EMF = 1 / 10000000, max_iters_EMF = 100, init_lr_EMF = 1 / 10,
          persistent_samples = [], tap_seed = None, terms = 2 \<rparr>"

definition seed_near_one :: magnetization where
  "seed_near_one = \<lparr> v = [1 - 1 / 10000000], h = [1 / 2] \<rparr>"

text \<open>
  The models with one visible and one hidden unit, weight \<open>w\<close> and biases \<open>a\<close> and
  \<open>b\<close>.
\<close>

definition rbm11 :: "real \<Rightarrow> real \<Rightarrow> real \<Rightarrow> TAP_rbm" where
  "rbm11 w a b = \<lparr> weights0_matrix = [[w]], layers0_loc = [a], layers1_loc = [b],
          tolerance_EMF = 1 / 10000000, max_iters_EMF = 100, init_lr_EMF = 1 / 10,
          persistent_samples = [], tap_seed = None, terms = 2 \<rparr>"

text \<open>
  The model with bias 3 with a pool of two slots, one filled and one still empty;
  and a model with visible bias \<open>-1e8\<close>, no descent iterations and a pool of one
  empty slot, as the constructor builds it.
\<close>

definition rbm_pool2 :: TAP_rbm where
  "rbm_pool2 = rbm_bias3 \<lparr> persistent_samples := [Some seed_half, None] \<rparr>"

definition rbm_far :: TAP_rbm where
  "rbm_far = \<lparr> weights0_matrix = [[0]], layers0_loc = [- 100000000], layers1_loc = [0],
          tolerance_EMF = 1 / 10000000, max_iters_EMF = 0, init_lr_EMF = 1 / 10,
          persistent_samples = [None], tap_seed = None, terms = 2 \<rparr>"

section \<open>The descent loop: unfolding, induction, invariants\<close>

lemma loop_unfold:
  "minimize_gamma_GD_loop gamma gv gh w a b tol mx its lr m gam =
     (if its < mx then
        (if gam - gamma (m_provisional gv gh w a b lr m) < 0 then
           (if lr * 0.5 < 1 / 10000000000 then (m, gam)
            else minimize_gamma_GD_loop gamma gv gh w a b tol mx (its + 1) (lr * 0.5) m gam)
         else if gam - gamma (m_provisional gv gh w a b lr m) < tol then (m, gam)
         else minimize_gamma_GD_loop gamma gv gh w a b tol mx (its + 1) lr
                (m_provisional gv gh w a b lr m) (gamma (m_provisional gv gh w a b lr m)))
      else (m, gam))"
  by (subst minimize_gamma_GD_loop.simps) (simp add: Let_def)

lemma trace_unfold:
  "minimize_gamma_GD_trace gamma gv gh w a b tol mx its lr m gam =
     (lr, m, gam) #
     (if its < mx then
        (if gam - gamma (m_provisional gv gh w a b lr m) < 0 then
           (if lr * 0.5 < 1 / 10000000000 then [(lr * 0.5, m, gam)]
            else minimize_gamma_GD_trace gamma gv gh w a b tol mx (its + 1) (lr * 0.5) m gam)
         else if gam - gamma (m_provisional gv gh w a b lr m) < tol then [(lr, m, gam)]
         else minimize_gamma_GD_trace gamma gv gh w a b tol mx (its + 1) lr
                (m_provisional gv gh w a b lr m) (gamma (m_provisional gv gh w a b lr m)))
      else [])"
  by (subst minimize_gamma_GD_trace.simps) (simp add: Let_def)

lemma gd_induct [case_names step]:
  assumes "\<And>its lr m gam.
     (its < mx \<Longrightarrow> gam - gamma (m_provisional gv gh w a b lr m) < 0 \<Longrightarrow>
        \<not> lr * 0.5 < 1 / 10000000000 \<Longrightarrow> P (its + 1) (lr * 0.5) m gam) \<Longrightarrow>
     (its < mx \<Longrightarrow> \<not> gam - gamma (m_provisional gv gh w a b lr m) < 0 \<Longrightarrow>
        \<not> gam - gamma (m_provisional gv gh w a b lr m) < tol \<Longrightarrow>
        P (its + 1) lr (m_provisional gv gh w a b lr m) (gamma (m_provisional gv gh w a b lr m))) \<Longrightarrow>
     P its lr m gam"
  shows "P (its :: int) (lr :: real) (m :: magnetization) (gam :: real)"
  using assms
proof (induction gamma gv gh w a b tol mx its lr m gam rule: minimize_gamma_GD_loop.induct)
  case (1 gamma gv gh w a b tol mx its lr m gam)
  show ?case
  proof (rule 1(3))
    assume "its < mx" "gam - gamma (m_provisional gv gh w a b lr m) < 0" "\<not> lr * 0.5 < 1 / 10000000000"
    then show "P (its + 1) (lr * 0.5) m gam"
      using 1(1)[OF _ refl refl] 1(3) by blast
  next
    assume "its < mx" "\<not> gam - gamma (m_provisional gv gh w a b lr m) < 0"
       "\<not> gam - gamma (m_provisional gv gh w a b lr m) < tol"
    then show "P (its + 1) lr (m_provisional gv gh w a b lr m) (gamma (m_provisional gv gh w a b lr m))"
      using 1(2)[OF _ refl refl] 1(3) by blast
  qed
qed


lemma loop_consistent:
  "gam = gamma m \<Longrightarrow>
   snd (minimize_gamma_GD_loop gamma gv gh w a b tol mx its lr m gam) =
   gamma (fst (minimize_gamma_GD_loop gamma gv gh w a b tol mx its lr m gam))"
proof (induction its lr m gam rule: gd_induct [where gamma = gamma and gv = gv and gh = gh and w = w and a = a and b = b and tol = tol and mx = mx])
  case (step its lr m gam)
  show ?case
    by (subst (1 2) loop_unfold) (use step in simp)
qed

lemma trace_nonempty: "minimize_gamma_GD_trace gamma gv gh w a b tol mx its lr m gam \<noteq> []"
  by (subst trace_unfold) simp

lemma trace_last:
  "snd (last (minimize_gamma_GD_trace gamma gv gh w a b tol mx its lr m gam)) =
   minimize_gamma_GD_loop gamma gv gh w a b tol mx its lr m gam"
proof (induction its lr m gam rule: gd_induct [where gamma = gamma and gv = gv and gh = gh and w = w and a = a and b = b and tol = tol and mx = mx])
  case (step its lr m gam)
  show ?case
    by (subst trace_unfold, subst loop_unfold) (use step in \<open>simp add: trace_nonempty\<close>)
qed

lemma trace_hd:
  "hd (minimize_gamma_GD_trace gamma gv gh w a b tol mx its lr m gam) = (lr, m, gam)"
  by (subst trace_unfold) simp

lemma trace_steps:
  "successively (descent_step gamma gv gh w a b tol)
     (minimize_gamma_GD_trace gamma gv gh w a b tol mx its lr m gam)"
proof (induction its lr m gam rule: gd_induct [where gamma = gamma and gv = gv and gh = gh and w = w and a = a and b = b and tol = tol and mx = mx])
  case (step its lr m gam)
  show ?case
    apply (subst trace_unfold)
    using step
    apply (simp add: successively_Cons trace_hd trace_nonempty)
    apply (simp add: descent_step_def)
    done
qed

lemma trace_inv:
  assumes "Q m" and "\<And>lr m. Q (m_provisional gv gh w a b lr m)"
  shows "list_all (\<lambda>s. Q (fst (snd s))) (minimize_gamma_GD_trace gamma gv gh w a b tol mx its lr m gam)"
  using assms(1)
proof (induction its lr m gam rule: gd_induct [where gamma = gamma and gv = gv and gh = gh and w = w and a = a and b = b and tol = tol and mx = mx])
  case (step its lr m gam)
  show ?case
    by (subst trace_unfold) (use step assms(2) in simp)
qed

lemma trace_converged:
  assumes "Suc i < length (minimize_gamma_GD_trace gamma gv gh w a b tol mx its lr m gam)"
    and "minimize_gamma_GD_trace gamma gv gh w a b tol mx its lr m gam ! i = (lr1, m1, gam1)"
    and "\<not> gam1 - gamma (m_provisional gv gh w a b lr1 m1) < 0"
    and "gam1 - gamma (m_provisional gv gh w a b lr1 m1) < tol"
  shows "minimize_gamma_GD_loop gamma gv gh w a b tol mx its lr m gam = (m1, gam1) \<and>
         length (minimize_gamma_GD_trace gamma gv gh w a b tol mx its lr m gam) = i + 2"
  using assms
proof (induction its lr m gam arbitrary: i rule: gd_induct [where gamma = gamma and gv = gv and gh = gh and w = w and a = a and b = b and tol = tol and mx = mx])
  case (step its lr m gam)
  show ?case
  proof (cases i)
    case 0
    with step.prems show ?thesis
      apply (subst loop_unfold)
      apply (subst trace_unfold)
      apply (subst (asm) (1 2) trace_unfold)
      by (auto split: if_splits)
  next
    case (Suc j)
    with step.prems step.IH[of j] show ?thesis
      apply (subst loop_unfold)
      apply (subst trace_unfold)
      apply (subst (asm) (1 2) trace_unfold)
      by (auto split: if_splits)
  qed
qed


lemma minimize_GD_loop_eq:
  "minimize_GD_loop self w a b tol mx its lr m gam =
   snd (minimize_gamma_GD_loop (grad_beta_beta_TAP3 self) grad_v grad_h w a b tol mx its lr m gam)"
proof (induction self w a b tol mx its lr m gam rule: minimize_GD_loop.induct)
  case (1 self w a b tol mx its lr m gam)
  define mp where "mp = m_provisional grad_v grad_h w a b lr m"
  define gp where "gp = grad_beta_beta_TAP3 self mp"
  have mp_eq: "mp = \<lparr> v = be_clip (t_sub (v m) (s_mul lr (grad_v m w a))) (1 / 1000000) (1 - 1 / 1000000),
                       h = be_clip (t_sub (h m) (s_mul lr (grad_h m w b))) (1 / 1000000) (1 - 1 / 1000000) \<rparr>"
    by (simp add: mp_def m_provisional_def Let_def)
  have ih1: "minimize_GD_loop self w a b tol mx (its + 1) (lr * 0.5) m gam =
       snd (minimize_gamma_GD_loop (grad_beta_beta_TAP3 self) grad_v grad_h w a b tol mx (its + 1) (lr * 0.5) m gam)"
    if "its < mx" "gam - gp < 0" "\<not> lr * 0.5 < 1 / 10000000000"
    using "1.IH"(1)[OF that(1) refl refl refl] that(2,3) unfolding gp_def mp_eq by simp
  have ih2: "minimize_GD_loop self w a b tol mx (its + 1) lr mp gp =
       snd (minimize_gamma_GD_loop (grad_beta_beta_TAP3 self) grad_v grad_h w a b tol mx (its + 1) lr mp gp)"
    if "its < mx" "\<not> gam - gp < 0" "\<not> gam - gp < tol"
    using "1.IH"(2)[OF that(1) refl refl refl] that(2,3) unfolding gp_def mp_eq by simp
  have lhs: "minimize_GD_loop self w a b tol mx its lr m gam =
     (if its < mx then
        (if gam - gp < 0 then
           (if lr * 0.5 < 1 / 10000000000 then gam
            else minimize_GD_loop self w a b tol mx (its + 1) (lr * 0.5) m gam)
         else if gam - gp < tol then gam
         else minimize_GD_loop self w a b tol mx (its + 1) lr mp gp)
      else gam)"
    by (subst minimize_GD_loop.simps) (simp add: Let_def gp_def mp_eq)
  have rhs: "minimize_gamma_GD_loop (grad_beta_beta_TAP3 self) grad_v grad_h w a b tol mx its lr m gam =
     (if its < mx then
        (if gam - gp < 0 then
           (if lr * 0.5 < 1 / 10000000000 then (m, gam)
            else minimize_gamma_GD_loop (grad_beta_beta_TAP3 self) grad_v grad_h w a b tol mx (its + 1) (lr * 0.5) m gam)
         else if gam - gp < tol then (m, gam)
         else minimize_gamma_GD_loop (grad_beta_beta_TAP3 self) grad_v grad_h w a b tol mx (its + 1) lr mp gp)
      else (m, gam))"
    by (subst loop_unfold) (simp add: gp_def mp_def)
  show ?case
    unfolding lhs rhs using ih1 ih2 by simp
qed

lemma minimize_gamma_GD_valid:
  "t = 1 \<or> t = 2 \<or> t = 3 \<Longrightarrow>
   minimize_gamma_GD self w a b m init_lr tol mx t =
     Inr (minimize_gamma_GD_loop (if t = 2 then gamma_TAP2 self else gamma_MF self)
            (if t = 1 then grad_v_gamma_MF else if t = 2 then grad_v_gamma_TAP2 else grad_v_gamma_TAP3)
            (if t = 1 then grad_h_gamma_MF else if t = 2 then grad_h_gamma_TAP2 else grad_h_gamma_TAP3)
            w a b tol mx 0 init_lr m ((if t = 2 then gamma_TAP2 self else gamma_MF self) m))"
  by (auto simp: minimize_gamma_GD_def)

lemma gibbs_free_energy_valid:
  assumes "t = 1 \<or> t = 2 \<or> t = 3"
  shows "gibbs_free_energy self g seed init_lr tol mx t =
     (case (case seed of None \<Rightarrow> random_seed (layers0_loc self) (layers1_loc self) g | Some s \<Rightarrow> (s, g)) of
        (seed', g') \<Rightarrow>
          Inr (minimize_gamma_GD_loop (if t = 2 then gamma_TAP2 self else gamma_MF self)
            (if t = 1 then grad_v_gamma_MF else if t = 2 then grad_v_gamma_TAP2 else grad_v_gamma_TAP3)
            (if t = 1 then grad_h_gamma_MF else if t = 2 then grad_h_gamma_TAP2 else grad_h_gamma_TAP3)
            (weights0_matrix self) (layers0_loc self) (layers1_loc self) tol mx 0 init_lr seed'
            ((if t = 2 then gamma_TAP2 self else gamma_MF self) seed'), g'))"
  using assms
  by (simp add: gibbs_free_energy_def Let_def minimize_gamma_GD_valid[OF assms] split: prod.splits)

section \<open>Evaluation at the concrete inputs\<close>

lemmas be_defs = t_add_def t_sub_def t_neg_def s_sub_def s_mul_def s_add_def be_log_def
  be_divide_def be_multiply_def be_square_def be_tsum_def be_clip_def be_dot_def be_dot_mv_def
  be_dot_vm_def m_square_def m_multiply_def m_tsum_def multiply_unsqueeze0_def multiply_unsqueeze1_def

lemma ln_lower: "0 < x \<Longrightarrow> 1 - 1 / x \<le> ln (x :: real)"
  using ln_le_minus_one[of "1 / x"] by (simp add: ln_div)

lemma prov_bias3:
  "m_provisional grad_v_gamma_MF grad_h_gamma_MF [[0]] [3] [0] (1 / 10) seed_half =
     \<lparr> v = [4 / 5], h = [1 / 2] \<rparr>"
  by (simp add: m_provisional_def seed_half_def grad_v_gamma_MF_def grad_h_gamma_MF_def be_defs Let_def)

lemma gamma_bias3_seed: "gamma_MF rbm_bias3 seed_half = - 2 * ln 2 - 3"
  by (simp add: gamma_MF_def rbm_bias3_def seed_half_def be_defs ln_div)

lemma gamma_bias3_prov:
  "gamma_MF rbm_bias3 \<lparr> v = [4 / 5], h = [1 / 2] \<rparr> =
     (4 / 5) * ln (4 / 5) + (1 / 5) * ln (1 / 5) - ln 2 - 24 / 5"
  by (simp add: gamma_MF_def rbm_bias3_def be_defs ln_div)

lemma bias3_decrease:
  "\<not> (- 2 * ln 2 - 3) - ((4 / 5) * ln (4 / 5) + (1 / 5) * ln (1 / 5) - ln 2 - 24 / 5) < (0::real)"
  "(- 2 * ln 2 - 3) - ((4 / 5) * ln (4 / 5) + (1 / 5) * ln (1 / 5) - ln 2 - 24 / 5) < (3::real)"
proof -
  have a: "ln (2::real) < 1" by (rule ln_2_less_1)
  have a': "0 < ln (2::real)" by simp
  have b: "ln (4 / 5 :: real) < 0" by simp
  have c: "ln (1 / 5 :: real) < 0" by (rule ln_less_zero) simp_all
  have d: "- (1 / 4) \<le> ln (4 / 5 :: real)" using ln_lower[of "4 / 5"] by simp
  have e: "- 4 \<le> ln (1 / 5 :: real)" using ln_lower[of "1 / 5"] by simp
  show "\<not> (- 2 * ln 2 - 3) - ((4 / 5) * ln (4 / 5) + (1 / 5) * ln (1 / 5) - ln 2 - 24 / 5) < (0::real)"
    using a b c by linarith
  show "(- 2 * ln 2 - 3) - ((4 / 5) * ln (4 / 5) + (1 / 5) * ln (1 / 5) - ln 2 - 24 / 5) < (3::real)"
    using a' d e by linarith
qed


lemma be_clip_range:
  "lo \<le> hi \<Longrightarrow> list_all (\<lambda>e. lo \<le> e \<and> e \<le> hi) (be_clip x lo hi)"
  by (induction x) (auto simp: be_clip_def)

lemma m_provisional_within:
  "all_within (1 / 1000000) (1 - 1 / 1000000) (m_provisional gv gh w a b lr m)"
  using be_clip_range [of "1 / 1000000" "1 - 1 / 1000000"]
  by (simp add: all_within_def m_provisional_def Let_def)

lemma loop_never_accepts:
  assumes "\<And>lr'. 0 < lr' \<Longrightarrow> gam - gamma (m_provisional gv gh w a b lr' m) < tol"
  shows "0 < lr \<Longrightarrow> m' = m \<Longrightarrow> gam' = gam \<Longrightarrow>
         minimize_gamma_GD_loop gamma gv gh w a b tol mx its lr m' gam' = (m, gam)"
proof (induction its lr m' gam' rule: gd_induct [where gamma = gamma and gv = gv and gh = gh and w = w and a = a and b = b and tol = tol and mx = mx])
  case (step its lr m' gam')
  have small: "gam - gamma (m_provisional gv gh w a b lr m) < tol"
    using assms step.prems(1) by simp
  show ?case
    by (subst loop_unfold) (use step small in auto)
qed

lemma bias3_converged:
  "\<not> gamma_MF rbm_bias3 seed_half -
       gamma_MF rbm_bias3 (m_provisional grad_v_gamma_MF grad_h_gamma_MF [[0]] [3] [0] (1 / 10) seed_half) < 0"
  "gamma_MF rbm_bias3 seed_half -
       gamma_MF rbm_bias3 (m_provisional grad_v_gamma_MF grad_h_gamma_MF [[0]] [3] [0] (1 / 10) seed_half) < 3"
  unfolding prov_bias3 gamma_bias3_seed gamma_bias3_prov
  by (rule bias3_decrease)+

lemma bias3_trace:
  "minimize_gamma_GD_trace (gamma_MF rbm_bias3) grad_v_gamma_MF grad_h_gamma_MF [[0]] [3] [0] 3 50 0
     (1 / 10) seed_half (gamma_MF rbm_bias3 seed_half) =
   [(1 / 10, seed_half, gamma_MF rbm_bias3 seed_half), (1 / 10, seed_half, gamma_MF rbm_bias3 seed_half)]"
  by (subst trace_unfold) (use bias3_converged in simp)

lemma bias3_loop:
  "minimize_gamma_GD_loop (gamma_MF rbm_bias3) grad_v_gamma_MF grad_h_gamma_MF [[0]] [3] [0] 3 50 0
     (1 / 10) seed_half (gamma_MF rbm_bias3 seed_half) = (seed_half, gamma_MF rbm_bias3 seed_half)"
  by (subst loop_unfold) (use bias3_converged in simp)

lemma prov_bias3_TAP3:
  "m_provisional grad_v_gamma_TAP3 grad_h_gamma_TAP3 [[0]] [3] [0] (1 / 10) seed_half =
     \<lparr> v = [4 / 5], h = [1 / 2] \<rparr>"
  by (simp add: m_provisional_def seed_half_def grad_v_gamma_TAP3_def grad_h_gamma_TAP3_def be_defs Let_def)

lemma bias3_loop_TAP3:
  "minimize_gamma_GD_loop (gamma_MF rbm_bias3) grad_v_gamma_TAP3 grad_h_gamma_TAP3 [[0]] [3] [0] 3 50 0
     (1 / 10) seed_half (gamma_MF rbm_bias3 seed_half) = (seed_half, gamma_MF rbm_bias3 seed_half)"
  apply (subst loop_unfold)
  unfolding prov_bias3_TAP3 gamma_bias3_seed gamma_bias3_prov
  using bias3_decrease by simp

lemma gamma_TAP3_bias3_seed: "gamma_TAP3 rbm_bias3 seed_half = - 2 * ln 2 - 3 / 2"
  by (simp add: gamma_TAP3_def rbm_bias3_def seed_half_def be_defs ln_div)

lemma gamma_TAP2_bias3_seed: "gamma_TAP2 rbm_bias3 seed_half = - 2 * ln 2 - 3 / 2"
  by (simp add: gamma_TAP2_def rbm_bias3_def seed_half_def be_defs ln_div)

section \<open>Gamma and its derivatives for one unit per layer\<close>

text \<open>
  For one visible and one hidden unit the three functionals are functions of two
  reals, and their partial derivatives can be computed and compared with the
  gradients of the code.
\<close>

lemma gamma_MF_11:
  "gamma_MF (rbm11 w a b) \<lparr> v = [x], h = [y] \<rparr> =
     x * ln x + (1 - x) * ln (1 - x) + (y * ln y + (1 - y) * ln (1 - y)) - a * x - b * y - x * (a + w * y)"
  by (simp add: gamma_MF_def rbm11_def be_defs)

lemma gamma_TAP2_11:
  "gamma_TAP2 (rbm11 w a b) \<lparr> v = [x], h = [y] \<rparr> =
     x * ln x + (1 - x) * ln (1 - x) + (y * ln y + (1 - y) * ln (1 - y)) - b * y - x * (a + w * y)
     - 0.5 * ((x - x * x) * (w * w * (y - y * y)))"
  by (simp add: gamma_TAP2_def rbm11_def be_defs)

lemma gamma_TAP3_11:
  "gamma_TAP3 (rbm11 w a b) \<lparr> v = [x], h = [y] \<rparr> =
     x * ln x + (1 - x) * ln (1 - x) + (y * ln y + (1 - y) * ln (1 - y)) - b * y - x * (a + w * y)
     - 0.5 * ((x - x * x) * (w * w * (y - y * y)))
     - (4 / 3) * ((0.5 - y) * (y - y * y) * ((0.5 - x) * (x - x * x) * (w * w * w)))"
  by (simp add: gamma_TAP3_def rbm11_def be_defs)

lemma entropy_deriv:
  assumes "0 < x" "x < 1"
  shows "DERIV (\<lambda>x :: real. x * ln x + (1 - x) * ln (1 - x)) x :> ln (x / (1 - x))"
  using assms
  by (auto intro!: derivative_eq_intros simp: ln_div)

lemma d_MF_v:
  assumes "0 < x" "x < 1"
  shows "DERIV (\<lambda>x. gamma_MF (rbm11 w a b) \<lparr> v = [x], h = [y] \<rparr>) x :>
           ln (x / (1 - x)) - 2 * a - w * y"
  unfolding gamma_MF_11
  using assms
  by (auto intro!: derivative_eq_intros simp: ln_div)

lemma deriv_plus_entropy:
  assumes "0 < x" "x < 1"
    and "DERIV P (x :: real) :> D"
    and "\<And>x. f x = x * ln x + (1 - x) * ln (1 - x) + P x"
    and "D' = ln (x / (1 - x)) + D"
  shows "DERIV f x :> D'"
proof -
  have "DERIV (\<lambda>x. x * ln x + (1 - x) * ln (1 - x) + P x) x :> ln (x / (1 - x)) + D"
    by (rule DERIV_add [OF entropy_deriv [OF assms(1,2)] assms(3)])
  moreover have "f = (\<lambda>x. x * ln x + (1 - x) * ln (1 - x) + P x)"
    using assms(4) by (rule ext)
  ultimately show ?thesis
    using assms(5) by simp
qed

lemma d_TAP2_v:
  assumes "0 < x" "x < 1"
  shows "DERIV (\<lambda>x. gamma_TAP2 (rbm11 w a b) \<lparr> v = [x], h = [y] \<rparr>) x :>
           ln (x / (1 - x)) - a - w * y - (0.5 - x) * (w * w * (y - y * y))"
proof (rule deriv_plus_entropy [OF assms])
  show "DERIV (\<lambda>x. (y * ln y + (1 - y) * ln (1 - y)) - b * y - x * (a + w * y)
     - 0.5 * ((x - x * x) * (w * w * (y - y * y)))) x :> - a - w * y - (0.5 - x) * (w * w * (y - y * y))"
    by (auto intro!: derivative_eq_intros simp: algebra_simps)
qed (simp_all add: gamma_TAP2_11)

lemma d_TAP3_v:
  assumes "0 < x" "x < 1"
  shows "DERIV (\<lambda>x. gamma_TAP3 (rbm11 w a b) \<lparr> v = [x], h = [y] \<rparr>) x :>
           ln (x / (1 - x)) - a - w * y - (0.5 - x) * (w * w * (y - y * y))
      - (4 / 3) * ((0.5 - 3 * x + 3 * (x * x)) * (w * w * w * ((0.5 - y) * (y - y * y))))"
proof (rule deriv_plus_entropy [OF assms])
  show "DERIV (\<lambda>x. (y * ln y + (1 - y) * ln (1 - y)) - b * y - x * (a + w * y)
     - 0.5 * ((x - x * x) * (w * w * (y - y * y)))
     - (4 / 3) * ((0.5 - y) * (y - y * y) * ((0.5 - x) * (x - x * x) * (w * w * w)))) x :>
     - a - w * y - (0.5 - x) * (w * w * (y - y * y))
      - (4 / 3) * ((0.5 - 3 * x + 3 * (x * x)) * (w * w * w * ((0.5 - y) * (y - y * y))))"
    by (auto intro!: derivative_eq_intros simp: field_simps)
qed (simp_all add: gamma_TAP3_11)


lemma d_MF_h:
  assumes "0 < y" "y < 1"
  shows "DERIV (\<lambda>y. gamma_MF (rbm11 w a b) \<lparr> v = [x], h = [y] \<rparr>) y :>
           ln (y / (1 - y)) - b - x * w"
proof (rule deriv_plus_entropy [OF assms])
  show "DERIV (\<lambda>y. (x * ln x + (1 - x) * ln (1 - x)) - a * x - b * y - x * (a + w * y)) y :>
          - b - x * w"
    by (auto intro!: derivative_eq_intros simp: algebra_simps)
qed (simp_all add: gamma_MF_11)

lemma d_TAP2_h:
  assumes "0 < y" "y < 1"
  shows "DERIV (\<lambda>y. gamma_TAP2 (rbm11 w a b) \<lparr> v = [x], h = [y] \<rparr>) y :>
           ln (y / (1 - y)) - b - x * w - (x - x * x) * (w * w) * (0.5 - y)"
proof (rule deriv_plus_entropy [OF assms])
  show "DERIV (\<lambda>y. (x * ln x + (1 - x) * ln (1 - x)) - b * y - x * (a + w * y)
     - 0.5 * ((x - x * x) * (w * w * (y - y * y)))) y :>
     - b - x * w - (x - x * x) * (w * w) * (0.5 - y)"
    by (auto intro!: derivative_eq_intros simp: algebra_simps)
qed (simp_all add: gamma_TAP2_11)

lemma d_TAP3_h:
  assumes "0 < y" "y < 1"
  shows "DERIV (\<lambda>y. gamma_TAP3 (rbm11 w a b) \<lparr> v = [x], h = [y] \<rparr>) y :>
           ln (y / (1 - y)) - b - x * w - (x - x * x) * (w * w) * (0.5 - y)
      - (4 / 3) * ((0.5 - x) * (x - x * x) * (w * w * w) * (0.5 - 3 * y + 3 * (y * y)))"
proof (rule deriv_plus_entropy [OF assms])
  show "DERIV (\<lambda>y. (x * ln x + (1 - x) * ln (1 - x)) - b * y - x * (a + w * y)
     - 0.5 * ((x - x * x) * (w * w * (y - y * y)))
     - (4 / 3) * ((0.5 - y) * (y - y * y) * ((0.5 - x) * (x - x * x) * (w * w * w)))) y :>
     - b - x * w - (x - x * x) * (w * w) * (0.5 - y)
      - (4 / 3) * ((0.5 - x) * (x - x * x) * (w * w * w) * (0.5 - 3 * y + 3 * (y * y)))"
    by (auto intro!: derivative_eq_intros simp: field_simps)
qed (simp_all add: gamma_TAP3_11)

section \<open>The loop over the persistent pool\<close>

lemma gibbs_free_energy_returns:
  assumes "t = 1 \<or> t = 2 \<or> t = 3"
  shows "\<exists>r g'. gibbs_free_energy self g seed init_lr tol mx t = Inr (r, g')"
  using gibbs_free_energy_valid [OF assms, of self g seed init_lr tol mx]
  by (auto split: prod.splits)

lemma persistent_loop_results:
  assumes valid: "terms self = 1 \<or> terms self = 2 \<or> terms self = 3"
  shows "length pre = k \<Longrightarrow>
    \<exists>EMF' best' m' g'.
      persistent_loop self [k..<k + length slots] (pre @ slots, EMF, best, m, g) =
        Inr (pre @ map (Some \<circ> fst) (pool_results self g slots), EMF', best', m', g') \<and>
      length (pool_results self g slots) = length slots \<and>
      best' \<le> best \<and> (\<forall>r \<in> set (pool_results self g slots). best' \<le> snd r) \<and>
      (if best' < best
       then \<exists>r \<in> set (pool_results self g slots). m' = Some (fst r) \<and> snd r = best'
       else m' = m \<and> best' = best)"
proof (induction slots arbitrary: pre k EMF best m g)
  case Nil
  then show ?case by simp
next
  case (Cons slot rest)
  obtain r g1 where run: "gibbs_free_energy self g slot (init_lr_EMF self) (tolerance_EMF self)
             (max_iters_EMF self) (terms self) = Inr (r, g1)"
    using gibbs_free_energy_returns [OF valid] by blast
  obtain mr er where r: "r = (mr, er)" by (cases r)
  define best1 where "best1 = (if er < best then er else best)"
  define m1 where "m1 = (if er < best then Some mr else m)"
  have idx: "[k..<k + length (slot # rest)] = k # [Suc k..<Suc k + length rest]"
    by (subst upt_rec) simp
  have nth: "(pre @ slot # rest) ! k = slot"
    unfolding Cons.prems [symmetric] by simp
  have upd: "(pre @ slot # rest)[k := Some mr] = (pre @ [Some mr]) @ rest"
    unfolding Cons.prems [symmetric] by simp
  have step: "persistent_loop self [k..<k + length (slot # rest)] (pre @ slot # rest, EMF, best, m, g) =
        persistent_loop self [Suc k..<Suc k + length rest] ((pre @ [Some mr]) @ rest, er, best1, m1, g1)"
    unfolding idx by (simp only: persistent_loop.simps nth run r upd best1_def m1_def sum.case prod.case if_distrib)
      (simp split: if_splits)
  have len: "length (pre @ [Some mr]) = Suc k"
    using Cons.prems by simp
  from Cons.IH [OF len, of er best1 m1 g1]
  obtain EMF' best' m' g' where
    res: "persistent_loop self [Suc k..<Suc k + length rest] ((pre @ [Some mr]) @ rest, er, best1, m1, g1) =
        Inr ((pre @ [Some mr]) @ map (Some \<circ> fst) (pool_results self g1 rest), EMF', best', m', g')"
    and n: "length (pool_results self g1 rest) = length rest"
    and le: "best' \<le> best1"
    and all: "\<forall>r \<in> set (pool_results self g1 rest). best' \<le> snd r"
    and sel: "if best' < best1
       then \<exists>r \<in> set (pool_results self g1 rest). m' = Some (fst r) \<and> snd r = best'
       else m' = m1 \<and> best' = best1"
    by blast
  have pr: "pool_results self g (slot # rest) = (mr, er) # pool_results self g1 rest"
    by (simp add: run r)
  have b: "best' \<le> best" "best' \<le> er"
    using le by (simp_all add: best1_def split: if_splits)
  have c1: "persistent_loop self [k..<k + length (slot # rest)] (pre @ slot # rest, EMF, best, m, g) =
        Inr (pre @ map (Some \<circ> fst) ((mr, er) # pool_results self g1 rest), EMF', best', m', g')"
    unfolding step res by simp
  have c2: "length ((mr, er) # pool_results self g1 rest) = length (slot # rest)"
    using n by simp
  have c4: "\<forall>r \<in> set ((mr, er) # pool_results self g1 rest). best' \<le> snd r"
    using all b(2) by simp
  have c5: "if best' < best
       then \<exists>r \<in> set ((mr, er) # pool_results self g1 rest). m' = Some (fst r) \<and> snd r = best'
       else m' = m \<and> best' = best"
    using sel le by (auto simp: best1_def m1_def split: if_splits)
  show ?case
    unfolding pr using c1 c2 b(1) c4 c5 by blast
qed


lemma rng_half_rand: "be_rand n rng_half = (replicate n (1 / 2), rng_half)"
  by (simp add: be_rand_def rng_half_def map_replicate_const)

lemma random_seed_half: "random_seed [x] [y] rng_half = (seed_half, rng_half)"
  by (simp add: random_seed_def rng_half_rand seed_half_def s_add_def s_mul_def)

lemma pool2_fields:
  "weights0_matrix rbm_pool2 = [[0]]" "layers0_loc rbm_pool2 = [3]" "layers1_loc rbm_pool2 = [0]"
  "init_lr_EMF rbm_pool2 = 1 / 10" "tolerance_EMF rbm_pool2 = 3" "max_iters_EMF rbm_pool2 = 50"
  "terms rbm_pool2 = 1" "persistent_samples rbm_pool2 = [Some seed_half, None]"
  "gamma_MF rbm_pool2 = gamma_MF rbm_bias3"
  by (simp_all add: rbm_pool2_def rbm_bias3_def gamma_MF_def fun_eq_iff)

lemma pool2_gibbs:
  "gibbs_free_energy rbm_pool2 rng_half (Some seed_half) (1 / 10) 3 50 1 =
     Inr ((seed_half, gamma_MF rbm_bias3 seed_half), rng_half)"
  "gibbs_free_energy rbm_pool2 rng_half None (1 / 10) 3 50 1 =
     Inr ((seed_half, gamma_MF rbm_bias3 seed_half), rng_half)"
  by (simp_all add: gibbs_free_energy_valid pool2_fields random_seed_half bias3_loop)

lemma pool2_results:
  "pool_results rbm_pool2 rng_half (persistent_samples rbm_pool2) =
     [(seed_half, gamma_MF rbm_bias3 seed_half), (seed_half, gamma_MF rbm_bias3 seed_half)]"
  by (simp add: pool2_fields pool2_gibbs)

lemma far_fields:
  "weights0_matrix rbm_far = [[0]]" "layers0_loc rbm_far = [- 100000000]" "layers1_loc rbm_far = [0]"
  "init_lr_EMF rbm_far = 1 / 10" "tolerance_EMF rbm_far = 1 / 10000000" "max_iters_EMF rbm_far = 0"
  "terms rbm_far = 2" "persistent_samples rbm_far = [None]"
  by (simp_all add: rbm_far_def)

lemma far_gamma: "gamma_TAP2 rbm_far seed_half = 50000000 - 2 * ln 2"
  by (simp add: gamma_TAP2_def rbm_far_def seed_half_def be_defs ln_div)

lemma far_gibbs:
  "gibbs_free_energy rbm_far rng_half None (1 / 10) (1 / 10000000) 0 2 =
     Inr ((seed_half, gamma_TAP2 rbm_far seed_half), rng_half)"
  by (subst gibbs_free_energy_valid, simp)
     (simp add: far_fields random_seed_half, subst loop_unfold, simp)

section \<open>The functionals at zero weights\<close>

text \<open>
  With a zero weight matrix the second and third order terms vanish, so
  \<open>gamma_TAP2\<close> and \<open>gamma_TAP3\<close> agree for every magnetization and all biases;
  \<open>gamma_MF\<close> differs from them by the visible bias term.
\<close>

lemma sum_list_zeros: "list_all (\<lambda>e. e = (0 :: real)) x \<Longrightarrow> sum_list x = 0"
  by (induction x) auto

lemma be_dot_zero_left: "list_all (\<lambda>e. e = 0) x \<Longrightarrow> be_dot x y = 0"
  unfolding be_dot_def
  by (rule sum_list_zeros) (auto simp: list_all_iff dest: set_zip_leftD)

lemma be_dot_zero_right: "list_all (\<lambda>e. e = 0) y \<Longrightarrow> be_dot x y = 0"
  unfolding be_dot_def
  by (rule sum_list_zeros) (auto simp: list_all_iff dest: set_zip_rightD)

lemma be_dot_mv_zero: "zero_matrix M \<Longrightarrow> list_all (\<lambda>e. e = 0) (be_dot_mv M x)"
  by (auto simp: zero_matrix_def be_dot_mv_def list_all_iff intro: be_dot_zero_left)

lemma m_square_zero: "zero_matrix M \<Longrightarrow> zero_matrix (m_square M)"
  by (auto simp: zero_matrix_def m_square_def be_square_def list_all_iff)

lemma m_multiply_zero: "zero_matrix M \<Longrightarrow> zero_matrix (m_multiply M N)"
  by (auto simp: zero_matrix_def m_multiply_def be_multiply_def list_all_iff dest!: set_zip_leftD)

lemma multiply_unsqueeze1_zero: "zero_matrix M \<Longrightarrow> zero_matrix (multiply_unsqueeze1 x M)"
  by (auto simp: zero_matrix_def multiply_unsqueeze1_def s_mul_def list_all_iff dest!: set_zip_rightD)

lemma multiply_unsqueeze0_zero: "zero_matrix M \<Longrightarrow> zero_matrix (multiply_unsqueeze0 x M)"
  by (auto simp: zero_matrix_def multiply_unsqueeze0_def be_multiply_def list_all_iff dest!: set_zip_rightD)

lemma m_tsum_zero: "zero_matrix M \<Longrightarrow> m_tsum M = 0"
  unfolding m_tsum_def
  by (rule sum_list_zeros) (auto simp: zero_matrix_def list_all_iff intro: sum_list_zeros)

lemma zero_weights_gamma:
  assumes "zero_matrix (weights0_matrix self)"
  shows "gamma_TAP3 self m = gamma_TAP2 self m"
    and "gamma_MF self m = gamma_TAP2 self m - be_dot (layers0_loc self) (v m)"
proof -
  have ww: "zero_matrix (m_square (weights0_matrix self))"
    by (rule m_square_zero [OF assms])
  have www: "zero_matrix (m_multiply (m_square (weights0_matrix self)) (weights0_matrix self))"
    by (rule m_multiply_zero [OF ww])
  have onsager: "be_dot x (be_dot_mv (m_square (weights0_matrix self)) y) = 0" for x y
    by (rule be_dot_zero_right [OF be_dot_mv_zero [OF ww]])
  have third: "m_tsum (multiply_unsqueeze0 x
      (multiply_unsqueeze1 y (m_multiply (m_square (weights0_matrix self)) (weights0_matrix self)))) = 0" for x y
    by (rule m_tsum_zero [OF multiply_unsqueeze0_zero [OF multiply_unsqueeze1_zero [OF www]]])
  show "gamma_TAP3 self m = gamma_TAP2 self m"
    by (simp add: gamma_TAP3_def gamma_TAP2_def Let_def onsager third)
  show "gamma_MF self m = gamma_TAP2 self m - be_dot (layers0_loc self) (v m)"
    by (simp add: gamma_MF_def gamma_TAP2_def Let_def onsager)
qed


section \<open>The logarithms stay in their domain\<close>

lemma quotient_positive:
  "list_all (\<lambda>e. 0 < e \<and> e < 1) x \<Longrightarrow>
   list_all (\<lambda>e. 0 < e) (x @ s_sub 1 x @ be_divide (s_sub 1 x) x)"
  by (induction x) (auto simp: be_divide_def s_sub_def)

lemma inside_unit_log_arguments:
  "inside_unit m \<Longrightarrow> list_all (\<lambda>e. 0 < e) (log_arguments m)"
  using quotient_positive [of "v m"] quotient_positive [of "h m"]
  by (simp add: inside_unit_def log_arguments_def)

lemma all_within_inside_unit:
  "all_within (1 / 1000000) (1 - 1 / 1000000) m \<Longrightarrow> inside_unit m"
  by (auto simp: all_within_def inside_unit_def list_all_iff)

lemma m_provisional_inside: "inside_unit (m_provisional gv gh w a b lr m)"
  by (rule all_within_inside_unit [OF m_provisional_within])

section \<open>The seed with a component near one\<close>

lemma ln_two_lower: "1 / 2 \<le> ln (2 :: real)"
  using ln_lower [of "2 :: real"] by simp

lemma ln_near_ten_million: "23 / 2 \<le> ln (9999999 :: real)"
proof -
  have "ln ((2 :: real) ^ 23) = 23 * ln 2"
    using ln_realpow [of "2 :: real" 23] by simp
  moreover have "ln ((2 :: real) ^ 23) \<le> ln 9999999"
    by (rule ln_mono) simp_all
  ultimately show ?thesis
    using ln_two_lower by linarith
qed

lemma ln_ten_bounds: "9 / 10 \<le> ln (10 :: real)" "ln (10 :: real) \<le> 9"
  using ln_lower [of "10 :: real"] ln_le_minus_one [of "10 :: real"] by simp_all

lemma ln_powers_of_ten:
  "ln (1 / 1000000 :: real) = - 6 * ln 10" "ln (1 / 10000000 :: real) = - 7 * ln 10"
  using ln_realpow [of "10 :: real" 6] ln_realpow [of "10 :: real" 7] by (simp_all add: ln_div)

lemma grad_near_one:
  "grad_v_gamma_TAP2 seed_near_one [[0]] [0] = [ln 9999999]"
  "grad_h_gamma_TAP2 seed_near_one [[0]] [0] = [0]"
  by (simp_all add: seed_near_one_def grad_v_gamma_TAP2_def grad_h_gamma_TAP2_def be_defs Let_def)

lemma prov_near_one:
  "m_provisional grad_v_gamma_TAP2 grad_h_gamma_TAP2 [[0]] [0] [0] (1 / 10) seed_near_one =
     \<lparr> v = [1 / 1000000], h = [1 / 2] \<rparr>"
proof -
  have sel: "v seed_near_one = [9999999 / 10000000]" "h seed_near_one = [1 / 2]"
    by (simp_all add: seed_near_one_def)
  have "be_clip [9999999 / 10000000 - (1 / 10) * ln 9999999] (1 / 1000000) (1 - 1 / 1000000) =
        [1 / 1000000]"
    using ln_near_ten_million by (simp add: be_clip_def min_def max_def)
  moreover have "be_clip [1 / 2] (1 / 1000000) (1 - 1 / 1000000) = [1 / 2]"
    by (simp add: be_clip_def)
  moreover have "m_provisional grad_v_gamma_TAP2 grad_h_gamma_TAP2 [[0]] [0] [0] (1 / 10) seed_near_one =
     \<lparr> v = be_clip [9999999 / 10000000 - (1 / 10) * ln 9999999] (1 / 1000000) (1 - 1 / 1000000),
        h = be_clip [1 / 2] (1 / 1000000) (1 - 1 / 1000000) \<rparr>"
    unfolding m_provisional_def Let_def grad_near_one sel
    by (simp add: t_sub_def s_mul_def)
  ultimately show ?thesis
    by simp
qed

lemma gamma_near_one:
  "gamma_TAP2 rbm_zero seed_near_one =
     (9999999 / 10000000) * ln (9999999 / 10000000) + (1 / 10000000) * ln (1 / 10000000) - ln 2"
  "gamma_TAP2 rbm_zero \<lparr> v = [1 / 1000000], h = [1 / 2] \<rparr> =
     (1 / 1000000) * ln (1 / 1000000) + (999999 / 1000000) * ln (999999 / 1000000) - ln 2"
  by (simp_all add: gamma_TAP2_def rbm_zero_def seed_near_one_def be_defs ln_div)

lemma near_one_decrease:
  "\<not> ((9999999 / 10000000) * ln (9999999 / 10000000) + (1 / 10000000) * ln (1 / 10000000) - ln 2) -
   ((1 / 1000000) * ln (1 / 1000000) + (999999 / 1000000) * ln (999999 / 1000000) - ln 2)
     < (0 :: real)"
  "((9999999 / 10000000) * ln (9999999 / 10000000) + (1 / 10000000) * ln (1 / 10000000) - ln 2) -
   ((1 / 1000000) * ln (1 / 1000000) + (999999 / 1000000) * ln (999999 / 1000000) - ln 2)
     < (1 / 10000 :: real)"
proof -
  have a: "ln (9999999 / 10000000 :: real) < 0" by (rule ln_less_zero) simp_all
  have a': "- (1 / 9999999) \<le> ln (9999999 / 10000000 :: real)"
    using ln_lower [of "9999999 / 10000000"] by simp
  have c: "ln (999999 / 1000000 :: real) < 0" by (rule ln_less_zero) simp_all
  have c': "- (1 / 999999) \<le> ln (999999 / 1000000 :: real)"
    using ln_lower [of "999999 / 1000000"] by simp
  show "\<not> ((9999999 / 10000000) * ln (9999999 / 10000000) + (1 / 10000000) * ln (1 / 10000000) - ln 2) -
   ((1 / 1000000) * ln (1 / 1000000) + (999999 / 1000000) * ln (999999 / 1000000) - ln 2)
     < (0 :: real)"
    unfolding ln_powers_of_ten using a' c ln_ten_bounds(1) by linarith
  show "((9999999 / 10000000) * ln (9999999 / 10000000) + (1 / 10000000) * ln (1 / 10000000) - ln 2) -
   ((1 / 1000000) * ln (1 / 1000000) + (999999 / 1000000) * ln (999999 / 1000000) - ln 2)
     < (1 / 10000 :: real)"
    unfolding ln_powers_of_ten using a c' ln_ten_bounds by linarith
qed

lemma near_one_converged:
  "\<not> gamma_TAP2 rbm_zero seed_near_one -
       gamma_TAP2 rbm_zero (m_provisional grad_v_gamma_TAP2 grad_h_gamma_TAP2 [[0]] [0] [0] (1 / 10) seed_near_one) < 0"
  "gamma_TAP2 rbm_zero seed_near_one -
       gamma_TAP2 rbm_zero (m_provisional grad_v_gamma_TAP2 grad_h_gamma_TAP2 [[0]] [0] [0] (1 / 10) seed_near_one)
       < 1 / 10000"
  unfolding prov_near_one gamma_near_one
  by (rule near_one_decrease)+

lemma near_one_trace:
  "minimize_gamma_GD_trace (gamma_TAP2 rbm_zero) grad_v_gamma_TAP2 grad_h_gamma_TAP2 [[0]] [0] [0]
     (1 / 10000) 50 0 (1 / 10) seed_near_one (gamma_TAP2 rbm_zero seed_near_one) =
   [(1 / 10, seed_near_one, gamma_TAP2 rbm_zero seed_near_one),
    (1 / 10, seed_near_one, gamma_TAP2 rbm_zero seed_near_one)]"
  by (subst trace_unfold) (use near_one_converged in simp)

lemma near_one_loop:
  "minimize_gamma_GD_loop (gamma_TAP2 rbm_zero) grad_v_gamma_TAP2 grad_h_gamma_TAP2 [[0]] [0] [0]
     (1 / 10000) 50 0 (1 / 10) seed_near_one (gamma_TAP2 rbm_zero seed_near_one) =
   (seed_near_one, gamma_TAP2 rbm_zero seed_near_one)"
  by (subst loop_unfold) (use near_one_converged in simp)


lemma near_one_outside: "\<not> all_within (1 / 1000000) (1 - 1 / 1000000) seed_near_one"
  by (simp add: all_within_def seed_near_one_def)

lemma near_one_inside: "inside_unit seed_near_one"
  by (simp add: inside_unit_def seed_near_one_def)

section \<open>The gradients for one unit per layer\<close>

text \<open>
  For one unit per layer the gradients of orders 2 and 3, and the hidden gradient
  of order 1, are the partial derivatives of their functionals. The visible
  gradient of order 1 exceeds the derivative of \<open>gamma_MF\<close> by the bias \<open>a\<close>,
  which \<open>gamma_MF\<close> subtracts twice.
\<close>

lemma grad_v_11:
  "grad_v_gamma_MF \<lparr> v = [x], h = [y] \<rparr> [[w]] [a] = [ln (x / (1 - x)) - a - w * y]"
  "grad_v_gamma_TAP2 \<lparr> v = [x], h = [y] \<rparr> [[w]] [a] =
     [ln (x / (1 - x)) - a - w * y - (0.5 - x) * (w * w * (y - y * y))]"
  "grad_v_gamma_TAP3 \<lparr> v = [x], h = [y] \<rparr> [[w]] [a] =
     [ln (x / (1 - x)) - a - w * y - (0.5 - x) * (w * w * (y - y * y))
      - (4 / 3) * ((0.5 - 3 * x + 3 * (x * x)) * (w * w * w * ((0.5 - y) * (y - y * y))))]"
  by (simp_all add: grad_v_gamma_MF_def grad_v_gamma_TAP2_def grad_v_gamma_TAP3_def be_defs Let_def)

lemma grad_h_11:
  "grad_h_gamma_MF \<lparr> v = [x], h = [y] \<rparr> [[w]] [b] = [ln (y / (1 - y)) - b - x * w]"
  "grad_h_gamma_TAP2 \<lparr> v = [x], h = [y] \<rparr> [[w]] [b] =
     [ln (y / (1 - y)) - b - x * w - (x - x * x) * (w * w) * (0.5 - y)]"
  "grad_h_gamma_TAP3 \<lparr> v = [x], h = [y] \<rparr> [[w]] [b] =
     [ln (y / (1 - y)) - b - x * w - (x - x * x) * (w * w) * (0.5 - y)
      - (4 / 3) * ((0.5 - x) * (x - x * x) * (w * w * w) * (0.5 - 3 * y + 3 * (y * y)))]"
  by (simp_all add: grad_h_gamma_MF_def grad_h_gamma_TAP2_def grad_h_gamma_TAP3_def be_defs Let_def)

lemma one_unit_visible_gradients:
  assumes "0 < x" "x < 1"
  shows "DERIV (\<lambda>x. gamma_TAP2 (rbm11 w a b) \<lparr> v = [x], h = [y] \<rparr>) x :>
           hd (grad_v_gamma_TAP2 \<lparr> v = [x], h = [y] \<rparr> [[w]] [a])"
    and "DERIV (\<lambda>x. gamma_TAP3 (rbm11 w a b) \<lparr> v = [x], h = [y] \<rparr>) x :>
           hd (grad_v_gamma_TAP3 \<lparr> v = [x], h = [y] \<rparr> [[w]] [a])"
    and "DERIV (\<lambda>x. gamma_MF (rbm11 w a b) \<lparr> v = [x], h = [y] \<rparr>) x :>
           hd (grad_v_gamma_MF \<lparr> v = [x], h = [y] \<rparr> [[w]] [a]) - a"
proof -
  have 1: "hd (grad_v_gamma_MF \<lparr> v = [x], h = [y] \<rparr> [[w]] [a]) - a =
           ln (x / (1 - x)) - 2 * a - w * y"
    by (simp add: grad_v_11)
  show "DERIV (\<lambda>x. gamma_TAP2 (rbm11 w a b) \<lparr> v = [x], h = [y] \<rparr>) x :>
           hd (grad_v_gamma_TAP2 \<lparr> v = [x], h = [y] \<rparr> [[w]] [a])"
    unfolding grad_v_11 list.sel by (rule d_TAP2_v [OF assms])
  show "DERIV (\<lambda>x. gamma_TAP3 (rbm11 w a b) \<lparr> v = [x], h = [y] \<rparr>) x :>
           hd (grad_v_gamma_TAP3 \<lparr> v = [x], h = [y] \<rparr> [[w]] [a])"
    unfolding grad_v_11 list.sel by (rule d_TAP3_v [OF assms])
  show "DERIV (\<lambda>x. gamma_MF (rbm11 w a b) \<lparr> v = [x], h = [y] \<rparr>) x :>
           hd (grad_v_gamma_MF \<lparr> v = [x], h = [y] \<rparr> [[w]] [a]) - a"
    unfolding 1 by (rule d_MF_v [OF assms])
qed

lemma one_unit_hidden_gradients:
  assumes "0 < y" "y < 1"
  shows "DERIV (\<lambda>y. gamma_MF (rbm11 w a b) \<lparr> v = [x], h = [y] \<rparr>) y :>
           hd (grad_h_gamma_MF \<lparr> v = [x], h = [y] \<rparr> [[w]] [b])"
    and "DERIV (\<lambda>y. gamma_TAP2 (rbm11 w a b) \<lparr> v = [x], h = [y] \<rparr>) y :>
           hd (grad_h_gamma_TAP2 \<lparr> v = [x], h = [y] \<rparr> [[w]] [b])"
    and "DERIV (\<lambda>y. gamma_TAP3 (rbm11 w a b) \<lparr> v = [x], h = [y] \<rparr>) y :>
           hd (grad_h_gamma_TAP3 \<lparr> v = [x], h = [y] \<rparr> [[w]] [b])"
  unfolding grad_h_11 list.sel
  by (rule d_MF_h [OF assms] d_TAP2_h [OF assms] d_TAP3_h [OF assms])+

section \<open>The magnetization that the pool loop selects\<close>

text \<open>
  As long as the lowest free-energy estimate of the pool is below the initial
  value \<open>1e7\<close> of \<open>best_EMF\<close>, the loop overwrites every slot and selects a result
  with the lowest estimate.
\<close>

lemma persistent_loop_selection:
  assumes valid: "terms self = 1 \<or> terms self = 2 \<or> terms self = 3"
    and nonempty: "persistent_samples self \<noteq> []"
  shows "\<exists>EMF m g'.
     tap_minimum self g =
       Inr (map (Some \<circ> fst) (pool_results self g (persistent_samples self)), EMF, m, g') \<and>
     length (pool_results self g (persistent_samples self)) = length (persistent_samples self) \<and>
     (if Min (snd ` set (pool_results self g (persistent_samples self))) < 10000000
      then \<exists>r \<in> set (pool_results self g (persistent_samples self)).
             m = Some (fst r) \<and> snd r = Min (snd ` set (pool_results self g (persistent_samples self)))
      else m = None) \<and>
     gradient self g units0 =
       (case m of
          None \<Rightarrow> Inl AttributeError
        | Some m' \<Rightarrow>
            Inr (assemble_gradient
                   (if terms self = 1 then grad_w_gamma_MF
                    else if terms self = 2 then grad_w_gamma_TAP2 else grad_w_gamma_TAP3)
                   self m' units0,
                 self\<lparr>persistent_samples :=
                        map (Some \<circ> fst) (pool_results self g (persistent_samples self))\<rparr>, g'))"
proof -
  let ?rs = "pool_results self g (persistent_samples self)"
  from persistent_loop_results [OF valid, of "[]" 0 "persistent_samples self" 1000000 10000000 None g]
  obtain EMF best' m g' where
    loop: "persistent_loop self [0..<length (persistent_samples self)]
             (persistent_samples self, 1000000, 10000000, None, g) =
           Inr (map (Some \<circ> fst) ?rs, EMF, best', m, g')"
    and len: "length ?rs = length (persistent_samples self)"
    and le: "best' \<le> 10000000"
    and all: "\<forall>r \<in> set ?rs. best' \<le> snd r"
    and sel: "if best' < 10000000 then \<exists>r \<in> set ?rs. m = Some (fst r) \<and> snd r = best'
              else m = None \<and> best' = 10000000"
    by auto
  have tm: "tap_minimum self g = Inr (map (Some \<circ> fst) ?rs, EMF, m, g')"
    using nonempty by (simp add: tap_minimum_def loop)
  have ne: "snd ` set ?rs \<noteq> {}" and fin: "finite (snd ` set ?rs)"
    using len nonempty by auto
  have pick: "if Min (snd ` set ?rs) < 10000000
      then \<exists>r \<in> set ?rs. m = Some (fst r) \<and> snd r = Min (snd ` set ?rs)
      else m = None"
  proof (cases "best' < 10000000")
    case True
    with sel obtain r where r: "r \<in> set ?rs" "m = Some (fst r)" "snd r = best'"
      by auto
    have "Min (snd ` set ?rs) = best'"
      by (rule Min_eqI [OF fin]) (use all r in auto)
    with True r show ?thesis by auto
  next
    case False
    with sel have m: "m = None" and b: "best' = 10000000" by auto
    have "10000000 \<le> Min (snd ` set ?rs)"
      using all b ne fin by (simp add: Min_ge_iff)
    with m show ?thesis by auto
  qed
  have gr: "gradient self g units0 =
       (case m of
          None \<Rightarrow> Inl AttributeError
        | Some m' \<Rightarrow>
            Inr (assemble_gradient
                   (if terms self = 1 then grad_w_gamma_MF
                    else if terms self = 2 then grad_w_gamma_TAP2 else grad_w_gamma_TAP3)
                   self m' units0,
                 self\<lparr>persistent_samples := map (Some \<circ> fst) ?rs\<rparr>, g'))"
    using valid by (auto simp: gradient_def tm split: option.splits)
  from tm len pick gr show ?thesis by blast
qed

lemma pool2_selection:
  "(terms rbm_pool2 = 1 \<or> terms rbm_pool2 = 2 \<or> terms rbm_pool2 = 3) \<and>
   persistent_samples rbm_pool2 \<noteq> [] \<and>
   (\<exists>EMF g'. tap_minimum rbm_pool2 rng_half =
       Inr ([Some seed_half, Some seed_half], EMF, Some seed_half, g') \<and>
     gradient rbm_pool2 rng_half [[1]] =
       Inr (assemble_gradient grad_w_gamma_MF rbm_pool2 seed_half [[1]],
            rbm_pool2\<lparr>persistent_samples := [Some seed_half, Some seed_half]\<rparr>, g'))"
proof -
  have v: "terms rbm_pool2 = 1 \<or> terms rbm_pool2 = 2 \<or> terms rbm_pool2 = 3"
    by (simp add: pool2_fields)
  have n: "persistent_samples rbm_pool2 \<noteq> []"
    by (simp add: pool2_fields)
  have "0 < ln (2 :: real)"
    by simp
  then have small: "gamma_MF rbm_bias3 seed_half < 10000000"
    unfolding gamma_bias3_seed by linarith
  from persistent_loop_selection [OF v n, of rng_half "[[1]]"] small
  have "\<exists>EMF g'. tap_minimum rbm_pool2 rng_half =
       Inr ([Some seed_half, Some seed_half], EMF, Some seed_half, g') \<and>
     gradient rbm_pool2 rng_half [[1]] =
       Inr (assemble_gradient grad_w_gamma_MF rbm_pool2 seed_half [[1]],
            rbm_pool2\<lparr>persistent_samples := [Some seed_half, Some seed_half]\<rparr>, g')"
    unfolding pool2_results by (auto simp: pool2_fields)
  with v n show ?thesis by blast
qed

section \<open>Claims\<close>

text \<open>
  C10. For every call of \<^verbatim>\<open>gibbs_free_energy\<close> with an expansion order in
  \<open>{1, 2, 3}\<close> the call returns, and the returned pair \<open>(m, gam)\<close> is
  self-consistent whichever way the loop was left: \<open>gam\<close> is \<open>gamma_TAP2\<close> at the
  returned magnetization when the order is 2 and \<open>gamma_MF\<close> at it when the order
  is 1 or 3.
\<close>

theorem gibbs_free_energy_self_consistent:
  assumes "t = 1 \<or> t = 2 \<or> t = 3"
  shows "\<exists>m gam g'. gibbs_free_energy self g seed init_lr tol mx t = Inr ((m, gam), g') \<and>
           gam = (if t = 2 then gamma_TAP2 self m else gamma_MF self m)"
proof -
  obtain seed' g' where sg: "(case seed of None \<Rightarrow> random_seed (layers0_loc self) (layers1_loc self) g | Some s \<Rightarrow> (s, g)) = (seed', g')"
    by (cases "(case seed of None \<Rightarrow> random_seed (layers0_loc self) (layers1_loc self) g | Some s \<Rightarrow> (s, g))")
  let ?gamma = "if t = 2 then gamma_TAP2 self else gamma_MF self"
  let ?r = "minimize_gamma_GD_loop ?gamma
            (if t = 1 then grad_v_gamma_MF else if t = 2 then grad_v_gamma_TAP2 else grad_v_gamma_TAP3)
            (if t = 1 then grad_h_gamma_MF else if t = 2 then grad_h_gamma_TAP2 else grad_h_gamma_TAP3)
            (weights0_matrix self) (layers0_loc self) (layers1_loc self) tol mx 0 init_lr seed'
            (?gamma seed')"
  obtain m' gam' where r: "?r = (m', gam')"
    by (cases ?r)
  have "snd ?r = ?gamma (fst ?r)"
    by (rule loop_consistent) simp
  then have gam': "gam' = ?gamma m'"
    unfolding r by simp
  have "gibbs_free_energy self g seed init_lr tol mx t = Inr (?r, g')"
    by (simp add: gibbs_free_energy_valid[OF assms] sg)
  then have "gibbs_free_energy self g seed init_lr tol mx t = Inr ((m', gam'), g')"
    unfolding r .
  moreover have "gam' = (if t = 2 then gamma_TAP2 self m' else gamma_MF self m')"
    using gam' by simp
  ultimately show ?thesis
    by blast
qed

theorem gibbs_free_energy_self_consistent_witness:
  "((1::int) = 1 \<or> (1::int) = 2 \<or> (1::int) = 3) \<and>
   (\<exists>m gam g'. gibbs_free_energy rbm_bias3 rng_half (Some seed_half) (1/10) 3 50 1 = Inr ((m, gam), g') \<and>
           gam = gamma_MF rbm_bias3 m)"
  using gibbs_free_energy_self_consistent [of 1 rbm_bias3 rng_half "Some seed_half" "1/10" 3 50]
  by simp

text \<open>
  C7. Constructing a \<^verbatim>\<open>TAP_rbm\<close> fails with \<open>ValueError\<close> exactly when the order is
  none of 1, 2, 3, and a model that is built keeps the order it was given;
  \<^verbatim>\<open>gibbs_free_energy\<close> fails with \<open>ValueError\<close> exactly when its order is none of
  1, 2, 3, with no result and no advanced generator, and it fails in no other way.
\<close>

theorem terms_validated:
  "(TAP_rbm_init layer_list t lr0 tol0 mx0 n = Inl ValueError) = (t \<noteq> 1 \<and> t \<noteq> 2 \<and> t \<noteq> 3) \<and>
   (case TAP_rbm_init layer_list t lr0 tol0 mx0 n of
      Inl e \<Rightarrow> e = ValueError | Inr self' \<Rightarrow> terms self' = t) \<and>
   (gibbs_free_energy self g seed init_lr tol mx t = Inl ValueError) = (t \<noteq> 1 \<and> t \<noteq> 2 \<and> t \<noteq> 3) \<and>
   (case gibbs_free_energy self g seed init_lr tol mx t of
      Inl e \<Rightarrow> e = ValueError | Inr r \<Rightarrow> True)"
proof -
  have 1: "(TAP_rbm_init layer_list t lr0 tol0 mx0 n = Inl ValueError) = (t \<noteq> 1 \<and> t \<noteq> 2 \<and> t \<noteq> 3)"
    by (cases layer_list) (simp add: TAP_rbm_init_def)
  have 2: "(case TAP_rbm_init layer_list t lr0 tol0 mx0 n of
      Inl e \<Rightarrow> e = ValueError | Inr self' \<Rightarrow> terms self' = t)"
    by (cases layer_list) (simp add: TAP_rbm_init_def)
  have 3: "(gibbs_free_energy self g seed init_lr tol mx t = Inl ValueError) = (t \<noteq> 1 \<and> t \<noteq> 2 \<and> t \<noteq> 3)"
  proof (cases "t = 1 \<or> t = 2 \<or> t = 3")
    case True
    then show ?thesis
      by (auto simp: gibbs_free_energy_valid[OF True] split: prod.splits)
  next
    case False
    then show ?thesis by (simp add: gibbs_free_energy_def)
  qed
  have 4: "(case gibbs_free_energy self g seed init_lr tol mx t of
      Inl e \<Rightarrow> e = ValueError | Inr r \<Rightarrow> True)"
  proof (cases "t = 1 \<or> t = 2 \<or> t = 3")
    case True
    then show ?thesis
      by (auto simp: gibbs_free_energy_valid[OF True] split: prod.splits)
  next
    case False
    then show ?thesis by (simp add: gibbs_free_energy_def)
  qed
  from 1 2 3 4 show ?thesis by blast
qed

theorem terms_validated_witness:
  "TAP_rbm_init ([[0]], [3], [0]) 4 (1 / 10) (1 / 10000000) 100 0 = Inl ValueError \<and>
   gibbs_free_energy rbm_bias3 rng_half (Some seed_half) (1 / 10) (1 / 10000) 50 4 = Inl ValueError \<and>
   (\<exists>self'. TAP_rbm_init ([[0]], [3], [0]) 2 (1 / 10) (1 / 10000000) 100 0 = Inr self' \<and> terms self' = 2) \<and>
   (\<exists>r. gibbs_free_energy rbm_bias3 rng_half (Some seed_half) (1 / 10) (1 / 10000) 50 2 = Inr r)"
  using terms_validated [of "([[0]], [3], [0])" 4 "1 / 10" "1 / 10000000" 100 0
          rbm_bias3 rng_half "Some seed_half" "1 / 10" "1 / 10000" 50]
        terms_validated [of "([[0]], [3], [0])" 2 "1 / 10" "1 / 10000000" 100 0
          rbm_bias3 rng_half "Some seed_half" "1 / 10" "1 / 10000" 50]
  by (auto split: sum.splits)

text \<open>
  C2. With expansion order 3 the minimizer runs the descent loop with the order-3
  gradients \<open>grad_v_gamma_TAP3\<close> and \<open>grad_h_gamma_TAP3\<close> for the provisional step
  and with the order-1 functional \<open>gamma_MF\<close> for the comparison: every iteration
  of the run is a descent step for exactly these three, and the scalar returned is
  \<open>gamma_MF\<close> at the returned magnetization.
\<close>

theorem order3_descent:
  "minimize_gamma_GD self w a b m init_lr tol mx 3 =
     Inr (minimize_gamma_GD_loop (gamma_MF self) grad_v_gamma_TAP3 grad_h_gamma_TAP3
            w a b tol mx 0 init_lr m (gamma_MF self m)) \<and>
   successively (descent_step (gamma_MF self) grad_v_gamma_TAP3 grad_h_gamma_TAP3 w a b tol)
     (minimize_gamma_GD_trace (gamma_MF self) grad_v_gamma_TAP3 grad_h_gamma_TAP3
        w a b tol mx 0 init_lr m (gamma_MF self m)) \<and>
   snd (last (minimize_gamma_GD_trace (gamma_MF self) grad_v_gamma_TAP3 grad_h_gamma_TAP3
        w a b tol mx 0 init_lr m (gamma_MF self m))) =
     minimize_gamma_GD_loop (gamma_MF self) grad_v_gamma_TAP3 grad_h_gamma_TAP3
            w a b tol mx 0 init_lr m (gamma_MF self m) \<and>
   (\<exists>m' gam'. minimize_gamma_GD self w a b m init_lr tol mx 3 = Inr (m', gam') \<and>
               gam' = gamma_MF self m')"
proof -
  let ?r = "minimize_gamma_GD_loop (gamma_MF self) grad_v_gamma_TAP3 grad_h_gamma_TAP3
            w a b tol mx 0 init_lr m (gamma_MF self m)"
  have run: "minimize_gamma_GD self w a b m init_lr tol mx 3 = Inr ?r"
    by (simp add: minimize_gamma_GD_def)
  have "snd ?r = gamma_MF self (fst ?r)"
    by (rule loop_consistent) simp
  then have "?r = (fst ?r, gamma_MF self (fst ?r))"
    by (metis prod.collapse)
  with run have ex: "\<exists>m' gam'. minimize_gamma_GD self w a b m init_lr tol mx 3 = Inr (m', gam') \<and>
               gam' = gamma_MF self m'"
    by metis
  show ?thesis
    by (intro conjI run trace_steps trace_last ex)
qed

theorem order3_descent_witness:
  "minimize_gamma_GD rbm_bias3 [[0]] [3] [0] seed_half (1 / 10) 3 50 3 =
     Inr (seed_half, gamma_MF rbm_bias3 seed_half) \<and>
   gamma_MF rbm_bias3 seed_half \<noteq> gamma_TAP3 rbm_bias3 seed_half"
proof -
  have "minimize_gamma_GD rbm_bias3 [[0]] [3] [0] seed_half (1 / 10) 3 50 3 =
     Inr (minimize_gamma_GD_loop (gamma_MF rbm_bias3) grad_v_gamma_TAP3 grad_h_gamma_TAP3
            [[0]] [3] [0] 3 50 0 (1 / 10) seed_half (gamma_MF rbm_bias3 seed_half))"
    by (rule conjunct1 [OF order3_descent [of rbm_bias3 "[[0]]" "[3]" "[0]" seed_half "1 / 10" 3 50]])
  then have run: "minimize_gamma_GD rbm_bias3 [[0]] [3] [0] seed_half (1 / 10) 3 50 3 =
     Inr (seed_half, gamma_MF rbm_bias3 seed_half)"
    unfolding bias3_loop_TAP3 .
  have ne: "gamma_MF rbm_bias3 seed_half \<noteq> gamma_TAP3 rbm_bias3 seed_half"
    by (simp add: gamma_bias3_seed gamma_TAP3_bias3_seed)
  show ?thesis
    using run ne by (rule conjI)
qed

text \<open>
  C6. With \<open>tol > 0\<close>, every iteration of the descent loop either leaves the pair
  \<open>(m, gam)\<close> as it is or replaces it by the provisional pair, whose Gamma value is
  lower by at least \<open>tol\<close>; the Gamma values along the run never increase; and
  the learning rate of an iteration is the previous one or half of it. The last
  state of the run is what the loop returns.
\<close>

theorem descent_monotone:
  assumes "0 < tol"
  shows "successively
           (\<lambda>(lr, m, gam) (lr', m', gam').
              ((m', gam') = (m, gam) \<or>
               (m' = m_provisional gv gh w a b lr m \<and> gam' = gamma m' \<and> gam' \<le> gam - tol)) \<and>
              (lr' = lr \<or> lr' = lr * 0.5))
           (minimize_gamma_GD_trace gamma gv gh w a b tol mx its lr0 m0 gam0) \<and>
         sorted_wrt (\<lambda>s s'. snd (snd s') \<le> snd (snd s))
           (minimize_gamma_GD_trace gamma gv gh w a b tol mx its lr0 m0 gam0) \<and>
         snd (last (minimize_gamma_GD_trace gamma gv gh w a b tol mx its lr0 m0 gam0)) =
           minimize_gamma_GD_loop gamma gv gh w a b tol mx its lr0 m0 gam0"
proof -
  let ?tr = "minimize_gamma_GD_trace gamma gv gh w a b tol mx its lr0 m0 gam0"
  let ?R = "\<lambda>(lr, m, gam) (lr', m', gam').
              ((m', gam') = (m, gam) \<or>
               (m' = m_provisional gv gh w a b lr m \<and> gam' = gamma m' \<and> gam' \<le> gam - tol)) \<and>
              (lr' = lr \<or> lr' = lr * 0.5)"
  have steps: "successively (descent_step gamma gv gh w a b tol) ?tr"
    by (rule trace_steps)
  have 1: "successively ?R ?tr"
    by (rule successively_mono[OF steps]) (auto simp: descent_step_def split: if_splits)
  have "successively (\<lambda>s s'. snd (snd s') \<le> snd (snd s)) ?tr"
    by (rule successively_mono[OF 1]) (use assms in auto)
  moreover have "transp (\<lambda>s s'. snd (snd s') \<le> (snd (snd s) :: real))"
    by (auto intro: transpI)
  ultimately have 2: "sorted_wrt (\<lambda>s s'. snd (snd s') \<le> snd (snd s)) ?tr"
    using successively_conv_sorted_wrt by blast
  show ?thesis
    by (intro conjI 1 2 trace_last)
qed

theorem descent_monotone_witness:
  "(0 :: real) < 3 \<and>
   successively
           (\<lambda>(lr, m, gam) (lr', m', gam').
              ((m', gam') = (m, gam) \<or>
               (m' = m_provisional grad_v_gamma_MF grad_h_gamma_MF [[0]] [3] [0] lr m \<and>
                gam' = gamma_MF rbm_bias3 m' \<and> gam' \<le> gam - 3)) \<and>
              (lr' = lr \<or> lr' = lr * 0.5))
           (minimize_gamma_GD_trace (gamma_MF rbm_bias3) grad_v_gamma_MF grad_h_gamma_MF
              [[0]] [3] [0] 3 50 0 (1 / 10) seed_half (gamma_MF rbm_bias3 seed_half)) \<and>
   sorted_wrt (\<lambda>s s'. snd (snd s') \<le> snd (snd s))
           (minimize_gamma_GD_trace (gamma_MF rbm_bias3) grad_v_gamma_MF grad_h_gamma_MF
              [[0]] [3] [0] 3 50 0 (1 / 10) seed_half (gamma_MF rbm_bias3 seed_half)) \<and>
   snd (last (minimize_gamma_GD_trace (gamma_MF rbm_bias3) grad_v_gamma_MF grad_h_gamma_MF
              [[0]] [3] [0] 3 50 0 (1 / 10) seed_half (gamma_MF rbm_bias3 seed_half))) =
     (seed_half, gamma_MF rbm_bias3 seed_half)"
  using descent_monotone [of 3 grad_v_gamma_MF grad_h_gamma_MF "[[0]]" "[3]" "[0]" "gamma_MF rbm_bias3"
          50 0 "1 / 10" seed_half "gamma_MF rbm_bias3 seed_half"]
  by (simp add: bias3_loop)


text \<open>
  C8. \<^verbatim>\<open>heat_capacity\<close> runs the descent loop of the free-energy minimizer (same
  clipping, halving, floor, iteration bound and comparisons) with the functional
  \<open>grad_beta_beta_TAP3\<close> and its own two gradients, and returns the negated value
  that the loop ends with, which is \<open>grad_beta_beta_TAP3\<close> at the final point.
\<close>

theorem heat_capacity_descent:
  "heat_capacity self g seed init_lr tol mx =
     (case (case seed of None \<Rightarrow> random_seed (layers0_loc self) (layers1_loc self) g
                       | Some s \<Rightarrow> (s, g)) of
        (seed', g') \<Rightarrow>
          (- snd (minimize_gamma_GD_loop (grad_beta_beta_TAP3 self) grad_v grad_h
                    (weights0_matrix self) (layers0_loc self) (layers1_loc self)
                    tol mx 0 init_lr seed' (grad_beta_beta_TAP3 self seed')), g')) \<and>
   snd (minimize_gamma_GD_loop (grad_beta_beta_TAP3 self) grad_v grad_h w a b tol mx 0 init_lr m
          (grad_beta_beta_TAP3 self m)) =
     grad_beta_beta_TAP3 self
       (fst (minimize_gamma_GD_loop (grad_beta_beta_TAP3 self) grad_v grad_h w a b tol mx 0 init_lr m
          (grad_beta_beta_TAP3 self m)))"
  by (simp add: heat_capacity_def minimize_GD_def Let_def minimize_GD_loop_eq loop_consistent
      split: prod.splits)

theorem heat_capacity_descent_witness:
  "heat_capacity rbm_bias3 rng_half (Some seed_half) (1 / 100) (1 / 10000) 20 = (4 * ln 2, rng_half)"
proof -
  have g: "grad_beta_beta_TAP3 rbm_bias3 seed_half = - 4 * ln 2"
    by (simp add: grad_beta_beta_TAP3_def rbm_bias3_def seed_half_def be_defs ln_div)
  have p: "m_provisional grad_v grad_h [[0]] [3] [0] (1 / 100) seed_half = seed_half"
    by (simp add: m_provisional_def seed_half_def grad_v_def grad_h_def be_defs Let_def)
  have l: "minimize_gamma_GD_loop (grad_beta_beta_TAP3 rbm_bias3) grad_v grad_h [[0]] [3] [0]
          (1 / 10000) 20 0 (1 / 100) seed_half (grad_beta_beta_TAP3 rbm_bias3 seed_half) =
        (seed_half, grad_beta_beta_TAP3 rbm_bias3 seed_half)"
    by (subst loop_unfold) (simp add: p)
  have sel: "weights0_matrix rbm_bias3 = [[0]]" "layers0_loc rbm_bias3 = [3]" "layers1_loc rbm_bias3 = [0]"
    by (simp_all add: rbm_bias3_def)
  have "heat_capacity rbm_bias3 rng_half (Some seed_half) (1 / 100) (1 / 10000) 20 =
      (- snd (minimize_gamma_GD_loop (grad_beta_beta_TAP3 rbm_bias3) grad_v grad_h [[0]] [3] [0]
          (1 / 10000) 20 0 (1 / 100) seed_half (grad_beta_beta_TAP3 rbm_bias3 seed_half)), rng_half)"
    using conjunct1 [OF heat_capacity_descent [of rbm_bias3 rng_half "Some seed_half" "1 / 100" "1 / 10000" 20]]
    by (simp add: sel)
  then show ?thesis
    unfolding l by (simp add: g)
qed


text \<open>
  C3 (amended). In every run of the minimizer, at the iteration where the decrease
  \<open>gam - gam'\<close> is non-negative but below \<open>tol\<close>, the loop stops without adopting
  the provisional point: the run returns the current magnetization \<open>m\<close> of that
  iteration and its value \<open>gam = gamma m\<close>, and that iteration is the last one.
\<close>

theorem converged_returns_current:
  assumes "Suc i < length (minimize_gamma_GD_trace gamma gv gh w a b tol mx 0 init_lr m0 (gamma m0))"
    and "minimize_gamma_GD_trace gamma gv gh w a b tol mx 0 init_lr m0 (gamma m0) ! i = (lr, m, gam)"
    and "\<not> gam - gamma (m_provisional gv gh w a b lr m) < 0"
    and "gam - gamma (m_provisional gv gh w a b lr m) < tol"
  shows "minimize_gamma_GD_loop gamma gv gh w a b tol mx 0 init_lr m0 (gamma m0) = (m, gam) \<and>
         gam = gamma m \<and>
         length (minimize_gamma_GD_trace gamma gv gh w a b tol mx 0 init_lr m0 (gamma m0)) = i + 2"
proof -
  have "minimize_gamma_GD_loop gamma gv gh w a b tol mx 0 init_lr m0 (gamma m0) = (m, gam) \<and>
        length (minimize_gamma_GD_trace gamma gv gh w a b tol mx 0 init_lr m0 (gamma m0)) = i + 2"
    by (rule trace_converged[OF assms])
  moreover have "snd (minimize_gamma_GD_loop gamma gv gh w a b tol mx 0 init_lr m0 (gamma m0)) =
     gamma (fst (minimize_gamma_GD_loop gamma gv gh w a b tol mx 0 init_lr m0 (gamma m0)))"
    by (rule loop_consistent) simp
  ultimately show ?thesis by simp
qed


theorem converged_returns_current_witness:
  "Suc 0 < length (minimize_gamma_GD_trace (gamma_MF rbm_bias3) grad_v_gamma_MF grad_h_gamma_MF
                     [[0]] [3] [0] 3 50 0 (1 / 10) seed_half (gamma_MF rbm_bias3 seed_half)) \<and>
   minimize_gamma_GD_trace (gamma_MF rbm_bias3) grad_v_gamma_MF grad_h_gamma_MF
     [[0]] [3] [0] 3 50 0 (1 / 10) seed_half (gamma_MF rbm_bias3 seed_half) ! 0 =
     (1 / 10, seed_half, gamma_MF rbm_bias3 seed_half) \<and>
   \<not> gamma_MF rbm_bias3 seed_half -
       gamma_MF rbm_bias3 (m_provisional grad_v_gamma_MF grad_h_gamma_MF [[0]] [3] [0] (1 / 10) seed_half) < 0 \<and>
   gamma_MF rbm_bias3 seed_half -
       gamma_MF rbm_bias3 (m_provisional grad_v_gamma_MF grad_h_gamma_MF [[0]] [3] [0] (1 / 10) seed_half) < 3 \<and>
   minimize_gamma_GD_loop (gamma_MF rbm_bias3) grad_v_gamma_MF grad_h_gamma_MF
     [[0]] [3] [0] 3 50 0 (1 / 10) seed_half (gamma_MF rbm_bias3 seed_half) =
     (seed_half, gamma_MF rbm_bias3 seed_half) \<and>
   length (minimize_gamma_GD_trace (gamma_MF rbm_bias3) grad_v_gamma_MF grad_h_gamma_MF
             [[0]] [3] [0] 3 50 0 (1 / 10) seed_half (gamma_MF rbm_bias3 seed_half)) = 2"
proof -
  have 1: "Suc 0 < length (minimize_gamma_GD_trace (gamma_MF rbm_bias3) grad_v_gamma_MF grad_h_gamma_MF
                     [[0]] [3] [0] 3 50 0 (1 / 10) seed_half (gamma_MF rbm_bias3 seed_half))"
    by (simp add: bias3_trace)
  have 2: "minimize_gamma_GD_trace (gamma_MF rbm_bias3) grad_v_gamma_MF grad_h_gamma_MF
     [[0]] [3] [0] 3 50 0 (1 / 10) seed_half (gamma_MF rbm_bias3 seed_half) ! 0 =
     (1 / 10, seed_half, gamma_MF rbm_bias3 seed_half)"
    by (simp add: bias3_trace)
  show ?thesis
    using converged_returns_current [OF 1 2 bias3_converged] 1 2 bias3_converged
    by simp
qed

text \<open>
  The claim as it was stated, that the converged iteration adopts the provisional
  point, fails for the model with bias 3 started at one half with learning rate
  \<open>1/10\<close> and \<open>tol = 3\<close>: the first iteration is the converged case, and the
  minimizer returns the seed and its value, not the provisional pair.
\<close>

theorem converged_returns_current_counterexample:
  "\<not> gamma_MF rbm_bias3 seed_half -
       gamma_MF rbm_bias3 (m_provisional grad_v_gamma_MF grad_h_gamma_MF [[0]] [3] [0] (1 / 10) seed_half) < 0 \<and>
   gamma_MF rbm_bias3 seed_half -
       gamma_MF rbm_bias3 (m_provisional grad_v_gamma_MF grad_h_gamma_MF [[0]] [3] [0] (1 / 10) seed_half) < 3 \<and>
   minimize_gamma_GD rbm_bias3 [[0]] [3] [0] seed_half (1 / 10) 3 50 1 =
     Inr (seed_half, gamma_MF rbm_bias3 seed_half) \<and>
   minimize_gamma_GD rbm_bias3 [[0]] [3] [0] seed_half (1 / 10) 3 50 1 \<noteq>
     Inr (m_provisional grad_v_gamma_MF grad_h_gamma_MF [[0]] [3] [0] (1 / 10) seed_half,
          gamma_MF rbm_bias3 (m_provisional grad_v_gamma_MF grad_h_gamma_MF [[0]] [3] [0] (1 / 10) seed_half))"
proof -
  have run: "minimize_gamma_GD rbm_bias3 [[0]] [3] [0] seed_half (1 / 10) 3 50 1 =
     Inr (seed_half, gamma_MF rbm_bias3 seed_half)"
    by (simp add: minimize_gamma_GD_def bias3_loop)
  have "seed_half \<noteq> m_provisional grad_v_gamma_MF grad_h_gamma_MF [[0]] [3] [0] (1 / 10) seed_half"
    unfolding prov_bias3 by (simp add: seed_half_def)
  with run bias3_converged show ?thesis
    by simp
qed

text \<open>
  C4 (what the code does at a failing input). For the model with zero weight and
  visible bias 3, at the magnetization with both components \<open>1/2\<close>,
  \<open>gamma_TAP2\<close> and \<open>gamma_TAP3\<close> agree, but \<open>gamma_MF\<close> is lower than both by
  \<open>3/2\<close>, the visible bias term that it subtracts a second time.
\<close>

theorem gamma_MF_counts_bias_twice:
  "weights0_matrix rbm_bias3 = [[0]] \<and>
   gamma_MF rbm_bias3 seed_half = gamma_TAP2 rbm_bias3 seed_half - 3 / 2 \<and>
   gamma_MF rbm_bias3 seed_half \<noteq> gamma_TAP2 rbm_bias3 seed_half \<and>
   gamma_MF rbm_bias3 seed_half \<noteq> gamma_TAP3 rbm_bias3 seed_half \<and>
   gamma_TAP2 rbm_bias3 seed_half = gamma_TAP3 rbm_bias3 seed_half"
proof -
  have w: "weights0_matrix rbm_bias3 = [[0]]"
    by (simp add: rbm_bias3_def)
  show ?thesis
    unfolding gamma_bias3_seed gamma_TAP2_bias3_seed gamma_TAP3_bias3_seed
    using w by simp
qed

text \<open>
  C9 (amended). Starting the minimizer from a seed with a component at \<open>1 - 1e-7\<close>,
  or from any seed with all components strictly inside \<open>(0, 1)\<close>, no logarithm is
  taken outside its domain and no quotient has a zero divisor: at the seed, at
  every current point and at every provisional point the arguments of the
  logarithms are positive. Every provisional magnetization has all its components
  in \<open>[1e-6, 1 - 1e-6]\<close>, and the current magnetization after the first descent
  step, and after any later one, is either still the seed or has all its
  components in that interval.
\<close>

theorem descent_stays_in_domain:
  assumes "inside_unit m0"
  shows "list_all (\<lambda>s. list_all (\<lambda>e. 0 < e) (log_arguments (fst (snd s))))
           (minimize_gamma_GD_trace gamma gv gh w a b tol mx 0 init_lr m0 (gamma m0)) \<and>
         list_all (\<lambda>e. 0 < e) (log_arguments (m_provisional gv gh w a b lr m)) \<and>
         all_within (1 / 1000000) (1 - 1 / 1000000) (m_provisional gv gh w a b lr m) \<and>
         list_all (\<lambda>s. fst (snd s) = m0 \<or> all_within (1 / 1000000) (1 - 1 / 1000000) (fst (snd s)))
           (minimize_gamma_GD_trace gamma gv gh w a b tol mx 0 init_lr m0 (gamma m0)) \<and>
         (fst (minimize_gamma_GD_loop gamma gv gh w a b tol mx 0 init_lr m0 (gamma m0)) = m0 \<or>
          all_within (1 / 1000000) (1 - 1 / 1000000)
            (fst (minimize_gamma_GD_loop gamma gv gh w a b tol mx 0 init_lr m0 (gamma m0))))"
proof -
  let ?Q = "\<lambda>x. x = m0 \<or> all_within (1 / 1000000) (1 - 1 / 1000000) x"
  let ?tr = "minimize_gamma_GD_trace gamma gv gh w a b tol mx 0 init_lr m0 (gamma m0)"
  have "list_all (\<lambda>s. inside_unit (fst (snd s))) ?tr"
    by (rule trace_inv) (use assms m_provisional_inside in blast)+
  then have pos: "list_all (\<lambda>s. list_all (\<lambda>e. 0 < e) (log_arguments (fst (snd s)))) ?tr"
    by (rule list.pred_mono_strong) (rule inside_unit_log_arguments)
  have ppos: "list_all (\<lambda>e. 0 < e) (log_arguments (m_provisional gv gh w a b lr m))"
    by (rule inside_unit_log_arguments [OF m_provisional_inside])
  have tr: "list_all (\<lambda>s. ?Q (fst (snd s))) ?tr"
    by (rule trace_inv) (use m_provisional_within in blast)+
  have "last ?tr \<in> set ?tr"
    by (simp add: trace_nonempty)
  with tr have "?Q (fst (snd (last ?tr)))"
    by (simp add: list_all_iff)
  then have res: "?Q (fst (minimize_gamma_GD_loop gamma gv gh w a b tol mx 0 init_lr m0 (gamma m0)))"
    by (simp add: trace_last)
  show ?thesis
    by (intro conjI pos ppos m_provisional_within tr res)
qed

theorem descent_stays_in_domain_witness:
  "inside_unit seed_near_one \<and>
   list_all (\<lambda>s. list_all (\<lambda>e. 0 < e) (log_arguments (fst (snd s))))
     (minimize_gamma_GD_trace (gamma_TAP2 rbm_zero) grad_v_gamma_TAP2 grad_h_gamma_TAP2
        [[0]] [0] [0] (1 / 10000) 50 0 (1 / 10) seed_near_one (gamma_TAP2 rbm_zero seed_near_one)) \<and>
   list_all (\<lambda>e. 0 < e) (log_arguments \<lparr> v = [1 / 1000000], h = [1 / 2] \<rparr>) \<and>
   all_within (1 / 1000000) (1 - 1 / 1000000) \<lparr> v = [1 / 1000000], h = [1 / 2] \<rparr> \<and>
   m_provisional grad_v_gamma_TAP2 grad_h_gamma_TAP2 [[0]] [0] [0] (1 / 10) seed_near_one =
     \<lparr> v = [1 / 1000000], h = [1 / 2] \<rparr> \<and>
   list_all (\<lambda>s. fst (snd s) = seed_near_one \<or> all_within (1 / 1000000) (1 - 1 / 1000000) (fst (snd s)))
     (minimize_gamma_GD_trace (gamma_TAP2 rbm_zero) grad_v_gamma_TAP2 grad_h_gamma_TAP2
        [[0]] [0] [0] (1 / 10000) 50 0 (1 / 10) seed_near_one (gamma_TAP2 rbm_zero seed_near_one)) \<and>
   (fst (minimize_gamma_GD_loop (gamma_TAP2 rbm_zero) grad_v_gamma_TAP2 grad_h_gamma_TAP2
        [[0]] [0] [0] (1 / 10000) 50 0 (1 / 10) seed_near_one (gamma_TAP2 rbm_zero seed_near_one)) = seed_near_one \<or>
    all_within (1 / 1000000) (1 - 1 / 1000000)
      (fst (minimize_gamma_GD_loop (gamma_TAP2 rbm_zero) grad_v_gamma_TAP2 grad_h_gamma_TAP2
        [[0]] [0] [0] (1 / 10000) 50 0 (1 / 10) seed_near_one (gamma_TAP2 rbm_zero seed_near_one))))"
proof -
  note t = descent_stays_in_domain [OF near_one_inside, of "gamma_TAP2 rbm_zero"
          grad_v_gamma_TAP2 grad_h_gamma_TAP2 "[[0]]" "[0]" "[0]" "1 / 10000" 50 "1 / 10" "1 / 10" seed_near_one]
  have t1: "list_all (\<lambda>s. list_all (\<lambda>e. 0 < e) (log_arguments (fst (snd s))))
     (minimize_gamma_GD_trace (gamma_TAP2 rbm_zero) grad_v_gamma_TAP2 grad_h_gamma_TAP2
        [[0]] [0] [0] (1 / 10000) 50 0 (1 / 10) seed_near_one (gamma_TAP2 rbm_zero seed_near_one))"
    using t by (rule conjunct1)
  have t2: "list_all (\<lambda>e. 0 < e) (log_arguments \<lparr> v = [1 / 1000000], h = [1 / 2] \<rparr>)"
    using conjunct1 [OF conjunct2 [OF t]] unfolding prov_near_one .
  have t3: "all_within (1 / 1000000) (1 - 1 / 1000000) \<lparr> v = [1 / 1000000], h = [1 / 2] \<rparr>"
    using conjunct1 [OF conjunct2 [OF conjunct2 [OF t]]] unfolding prov_near_one .
  have t4: "list_all (\<lambda>s. fst (snd s) = seed_near_one \<or> all_within (1 / 1000000) (1 - 1 / 1000000) (fst (snd s)))
     (minimize_gamma_GD_trace (gamma_TAP2 rbm_zero) grad_v_gamma_TAP2 grad_h_gamma_TAP2
        [[0]] [0] [0] (1 / 10000) 50 0 (1 / 10) seed_near_one (gamma_TAP2 rbm_zero seed_near_one))"
    using conjunct1 [OF conjunct2 [OF conjunct2 [OF conjunct2 [OF t]]]] .
  have t5: "fst (minimize_gamma_GD_loop (gamma_TAP2 rbm_zero) grad_v_gamma_TAP2 grad_h_gamma_TAP2
        [[0]] [0] [0] (1 / 10000) 50 0 (1 / 10) seed_near_one (gamma_TAP2 rbm_zero seed_near_one)) = seed_near_one \<or>
    all_within (1 / 1000000) (1 - 1 / 1000000)
      (fst (minimize_gamma_GD_loop (gamma_TAP2 rbm_zero) grad_v_gamma_TAP2 grad_h_gamma_TAP2
        [[0]] [0] [0] (1 / 10000) 50 0 (1 / 10) seed_near_one (gamma_TAP2 rbm_zero seed_near_one)))"
    using conjunct2 [OF conjunct2 [OF conjunct2 [OF conjunct2 [OF t]]]] .
  show ?thesis
    by (intro conjI near_one_inside t1 t2 t3 prov_near_one t4 t5)
qed

text \<open>
  The claim as it was stated, that the current magnetization is inside
  \<open>[1e-6, 1 - 1e-6]\<close> after the first step, fails for the model without weights and
  biases at order 2, started with visible component \<open>1 - 1e-7\<close>, learning rate
  \<open>1/10\<close> and \<open>tol = 1e-4\<close>: the first step is the converged case, so the current
  magnetization after it is still the seed, and the seed is what is returned.
\<close>

theorem descent_stays_in_domain_counterexample:
  "1 < length (minimize_gamma_GD_trace (gamma_TAP2 rbm_zero) grad_v_gamma_TAP2 grad_h_gamma_TAP2
                 [[0]] [0] [0] (1 / 10000) 50 0 (1 / 10) seed_near_one (gamma_TAP2 rbm_zero seed_near_one)) \<and>
   \<not> all_within (1 / 1000000) (1 - 1 / 1000000)
       (fst (snd (minimize_gamma_GD_trace (gamma_TAP2 rbm_zero) grad_v_gamma_TAP2 grad_h_gamma_TAP2
                 [[0]] [0] [0] (1 / 10000) 50 0 (1 / 10) seed_near_one (gamma_TAP2 rbm_zero seed_near_one) ! 1))) \<and>
   minimize_gamma_GD rbm_zero [[0]] [0] [0] seed_near_one (1 / 10) (1 / 10000) 50 2 =
     Inr (seed_near_one, gamma_TAP2 rbm_zero seed_near_one) \<and>
   \<not> all_within (1 / 1000000) (1 - 1 / 1000000) seed_near_one"
proof -
  have run: "minimize_gamma_GD rbm_zero [[0]] [0] [0] seed_near_one (1 / 10) (1 / 10000) 50 2 =
     Inr (seed_near_one, gamma_TAP2 rbm_zero seed_near_one)"
    by (simp add: minimize_gamma_GD_def near_one_loop)
  show ?thesis
    unfolding near_one_trace using near_one_outside run by simp
qed

text \<open>
  C1 (what the code does at a failing input). For the model with one unit per
  layer, zero weight and visible bias 3, at the magnetization with both components
  \<open>1/2\<close>, the partial derivative of \<open>gamma_MF\<close> in the visible component is \<open>-6\<close>,
  while \<open>grad_v_gamma_MF\<close> returns \<open>-3\<close>: the order-1 visible gradient is not the
  partial derivative of the order-1 functional.
\<close>

theorem order1_visible_gradient_misses_bias:
  "DERIV (\<lambda>x. gamma_MF (rbm11 0 3 0) \<lparr> v = [x], h = [1 / 2] \<rparr>) (1 / 2) :> - 6 \<and>
   grad_v_gamma_MF seed_half [[0]] [3] = [- 3] \<and>
   \<not> DERIV (\<lambda>x. gamma_MF (rbm11 0 3 0) \<lparr> v = [x], h = [1 / 2] \<rparr>) (1 / 2) :>
       hd (grad_v_gamma_MF seed_half [[0]] [3])"
proof -
  have d: "DERIV (\<lambda>x. gamma_MF (rbm11 0 3 0) \<lparr> v = [x], h = [1 / 2] \<rparr>) (1 / 2) :> - 6"
    using d_MF_v [of "1 / 2" 0 3 0 "1 / 2"] by simp
  have g: "grad_v_gamma_MF seed_half [[0]] [3] = [- 3]"
    by (simp add: seed_half_def grad_v_11)
  have "\<not> DERIV (\<lambda>x. gamma_MF (rbm11 0 3 0) \<lparr> v = [x], h = [1 / 2] \<rparr>) (1 / 2) :> - 3"
  proof
    assume "DERIV (\<lambda>x. gamma_MF (rbm11 0 3 0) \<lparr> v = [x], h = [1 / 2] \<rparr>) (1 / 2) :> - 3"
    from DERIV_unique [OF d this] show False by simp
  qed
  then show ?thesis
    using d g by simp
qed

text \<open>
  C5 (what the code does at a failing input). For the model with visible bias
  \<open>-1e8\<close>, built by the constructor with a pool of one slot and no descent
  iterations, the only candidate has a free-energy estimate above \<open>1e7\<close>: the
  comparison with \<open>best_EMF\<close> never succeeds, no magnetization is selected although
  the slot is overwritten, and \<^verbatim>\<open>gradient\<close> fails at the first use of \<open>m\<close>.
\<close>

theorem persistent_pool_none_selected:
  "TAP_rbm_init ([[0]], [- 100000000], [0]) 2 (1 / 10) (1 / 10000000) 0 1 = Inr rbm_far \<and>
   tap_minimum rbm_far rng_half = Inr ([Some seed_half], gamma_TAP2 rbm_far seed_half, None, rng_half) \<and>
   \<not> gamma_TAP2 rbm_far seed_half < 10000000 \<and>
   gradient rbm_far rng_half [[1]] = Inl AttributeError"
proof -
  have init: "TAP_rbm_init ([[0]], [- 100000000], [0]) 2 (1 / 10) (1 / 10000000) 0 1 = Inr rbm_far"
    by (simp add: TAP_rbm_init_def rbm_far_def)
  have big: "\<not> gamma_TAP2 rbm_far seed_half < 10000000"
    unfolding far_gamma using ln_2_less_1 by simp
  have tm: "tap_minimum rbm_far rng_half =
      Inr ([Some seed_half], gamma_TAP2 rbm_far seed_half, None, rng_half)"
    using big by (simp add: tap_minimum_def far_fields far_gibbs)
  have gr: "gradient rbm_far rng_half [[1]] = Inl AttributeError"
    by (simp add: gradient_def tm far_fields)
  from init tm big gr show ?thesis by blast
qed



end
